theory Spec2Isabelle
  imports Complex_Main "HOL-Library.AList"
begin

section \<open>Conventions of the embedding\<close>

text \<open>
  Python floats are modelled as \<^typ>\<open>real\<close>: arithmetic is exact, and NaN and the
  infinities are not values (the correlations, where NaN arises, are the exception and
  are treated there). A Python exception is a value of \<open>py_error\<close>; a function
  body that may raise returns \<open>py_error + 'a\<close> with \<open>Inl\<close> for the exception, and a
  \<open>try ... except Exception\<close> around a body is a case distinction on that result.
  A Python dict whose iteration order matters is an association list in insertion order.
\<close>

datatype py_error =
    KeyError string
  | ValueError string
  | ZeroDivisionError string
  | TypeError string
  | NameError string
  | AttributeError string

text \<open>\<open>str(e)\<close>: a \<open>KeyError\<close> prints the repr of the key, the others their message.\<close>

fun str_of_error :: "py_error \<Rightarrow> string" where
  "str_of_error (KeyError k) = [CHR 0x27] @ k @ [CHR 0x27]"
| "str_of_error (ValueError m) = m"
| "str_of_error (ZeroDivisionError m) = m"
| "str_of_error (TypeError m) = m"
| "str_of_error (NameError m) = m"
| "str_of_error (AttributeError m) = m"

section \<open>advanced\_risk\_manager.py\<close>

text \<open>
  The one float of the core that can become NaN is the correlation of a market
  condition, a mean over a column of the correlation matrix: such a float is a
  \<open>real option\<close>, with \<open>None\<close> for NaN.
\<close>

type_synonym nfloat = "real option"

record MarketCondition =
  volatility :: real
  correlation :: nfloat
  trend_strength :: real
  liquidity :: real
  sentiment :: real

text \<open>
  The part of \<open>AdvancedRiskManager\<close> the operations below read and write:
  \<open>emergency_triggers\<close> is the configuration dict (a missing key raises \<open>KeyError\<close>),
  \<open>market_conditions\<close> the dict from symbol to condition, in insertion order,
  \<open>correlation_matrix\<close> the data frame of pairwise correlations (\<open>None\<close> before the
  first update), as the list of its columns, each column the list of its labelled rows,
  and \<open>last_update\<close> the time of the last update.
\<close>

type_synonym frame = "(string \<times> (string \<times> nfloat) list) list"

record risk_manager =
  emergency_triggers :: "string \<rightharpoonup> real"
  market_conditions :: "(string \<times> MarketCondition) list"
  correlation_matrix :: "frame option"
  last_update :: "real option"

subsection \<open>calculate\_dynamic\_stop\_loss\<close>

text \<open>The body of the \<open>try\<close> block; the \<open>raise ValueError\<close> is the \<open>Inl\<close> branch.\<close>

definition stop_loss_body ::
  "risk_manager \<Rightarrow> string \<Rightarrow> real \<Rightarrow> real \<Rightarrow> MarketCondition option \<Rightarrow> py_error + (real \<times> real)" where
  "stop_loss_body rm symbol entry_price position_size market_condition =
     (case (case market_condition of
              None \<Rightarrow> map_of (market_conditions rm) symbol
            | Some c \<Rightarrow> Some c) of
        None \<Rightarrow> Inl (ValueError (''No market condition data for '' @ symbol))
      | Some mc \<Rightarrow>
          (let base_stop = 0.02;
               vol_factor = volatility mc / 0.02;
               vol_adjusted_stop = base_stop * vol_factor;
               trend_factor = 1.0 + (trend_strength mc / 100);
               trend_adjusted_stop = vol_adjusted_stop * trend_factor;
               final_stop_pct = min (max trend_adjusted_stop 0.01) 0.05;
               stop_loss_price = entry_price * (1 - final_stop_pct);
               take_profit_price = entry_price * (1 + final_stop_pct * 2)
           in Inr (stop_loss_price, take_profit_price)))"

text \<open>
  The whole function: the \<open>except Exception\<close> handler turns every failure of the body
  into the fixed pair. The result type keeps an \<open>Inl\<close> side so that "the call fails" can
  be stated; the function never produces it.
\<close>

definition calculate_dynamic_stop_loss ::
  "risk_manager \<Rightarrow> string \<Rightarrow> real \<Rightarrow> real \<Rightarrow> MarketCondition option \<Rightarrow> py_error + (real \<times> real)" where
  "calculate_dynamic_stop_loss rm symbol entry_price position_size market_condition =
     (case stop_loss_body rm symbol entry_price position_size market_condition of
        Inl e \<Rightarrow> Inr (entry_price * 0.98, entry_price * 1.04)
      | Inr r \<Rightarrow> Inr r)"

text \<open>The stop percentage in the words of the specification: base 2 percent, scaled by
  the volatility ratio and the trend factor, clamped to the interval from 1 to 5 percent.\<close>

definition spec_final_stop_pct :: "real \<Rightarrow> real \<Rightarrow> real" where
  "spec_final_stop_pct vol trend =
     (let raw = 0.02 * (vol / 0.02) * (1 + trend / 100)
      in if raw < 0.01 then 0.01 else if raw > 0.05 then 0.05 else raw)"

subsection \<open>check\_emergency\_shutdown\<close>

text \<open>
  A portfolio entry is a dict; the three keys the function reads may each be absent.
  \<open>pos['value']\<close> raises \<open>KeyError\<close> when absent, \<open>pos.get(k, 0)\<close> gives 0.
\<close>

record pos_dict =
  pos_value :: "real option"
  pos_peak_value :: "real option"
  pos_daily_pl :: "real option"

text \<open>\<open>sum(pos['value'] for pos in portfolio.values())\<close>\<close>

fun sum_values :: "pos_dict list \<Rightarrow> py_error + real" where
  "sum_values [] = Inr 0"
| "sum_values (p # ps) =
     (case pos_value p of
        None \<Rightarrow> Inl (KeyError ''value'')
      | Some v \<Rightarrow> (case sum_values ps of Inl e \<Rightarrow> Inl e | Inr s \<Rightarrow> Inr (v + s)))"

text \<open>\<open>max(pos.get('peak_value', 0) for pos in portfolio.values())\<close>: \<open>max\<close> of an empty
  iterable raises \<open>ValueError\<close>.\<close>

definition get_or :: "'a option \<Rightarrow> 'a \<Rightarrow> 'a" where
  "get_or v d = (case v of None \<Rightarrow> d | Some x \<Rightarrow> x)"

definition empty_max_message :: string where
  "empty_max_message = ''max() arg is an empty sequence''"

fun max_peak :: "pos_dict list \<Rightarrow> py_error + real" where
  "max_peak [] = Inl (ValueError empty_max_message)"
| "max_peak (p # ps) = Inr (fold (\<lambda>q m. max m (get_or (pos_peak_value q) 0)) ps (get_or (pos_peak_value p) 0))"

text \<open>\<open>sum(pos.get('daily_pl', 0) for pos in portfolio.values())\<close>\<close>

definition sum_daily_pl :: "pos_dict list \<Rightarrow> real" where
  "sum_daily_pl ps = sum_list (map (\<lambda>p. get_or (pos_daily_pl p) 0) ps)"

definition lookup_trigger :: "(string \<rightharpoonup> real) \<Rightarrow> string \<Rightarrow> py_error + real" where
  "lookup_trigger trig k = (case trig k of None \<Rightarrow> Inl (KeyError k) | Some v \<Rightarrow> Inr v)"

text \<open>
  The loop over \<open>self.market_conditions.items()\<close>. For each instrument the volatility
  test comes first, then the liquidity test; the first hit returns. \<open>fmt\<close> stands for
  Python's \<open>:.2%\<close> float formatting, which the embedding takes as a parameter.
\<close>

fun check_conditions ::
  "(real \<Rightarrow> string) \<Rightarrow> (string \<rightharpoonup> real) \<Rightarrow> (string \<times> MarketCondition) list \<Rightarrow> py_error + (bool \<times> string)" where
  "check_conditions fmt trig [] = Inr (False, '''')"
| "check_conditions fmt trig ((symbol, condition) # rest) =
     (case lookup_trigger trig ''max_volatility'' of
        Inl e \<Rightarrow> Inl e
      | Inr mv \<Rightarrow>
          if volatility condition > mv
          then Inr (True, ''Excessive volatility in '' @ symbol @ '': '' @ fmt (volatility condition))
          else if liquidity condition < 0.5
          then Inr (True, ''Insufficient liquidity in '' @ symbol)
          else check_conditions fmt trig rest)"

definition drawdown_of :: "real \<Rightarrow> real \<Rightarrow> real" where
  "drawdown_of peak_value total_value =
     (if peak_value > 0 then (peak_value - total_value) / peak_value else 0)"

definition daily_pl_pct_of :: "real \<Rightarrow> real \<Rightarrow> real" where
  "daily_pl_pct_of daily_pl total_value =
     (if total_value > 0 then daily_pl / total_value else 0)"

text \<open>The body of the \<open>try\<close> block of \<open>check_emergency_shutdown\<close>.\<close>

definition shutdown_body ::
  "(real \<Rightarrow> string) \<Rightarrow> risk_manager \<Rightarrow> (string \<times> pos_dict) list \<Rightarrow> py_error + (bool \<times> string)" where
  "shutdown_body fmt rm portfolio =
     (case sum_values (map snd portfolio) of
        Inl e \<Rightarrow> Inl e
      | Inr total_value \<Rightarrow>
     (case max_peak (map snd portfolio) of
        Inl e \<Rightarrow> Inl e
      | Inr peak_value \<Rightarrow>
     (let drawdown = drawdown_of peak_value total_value in
      case lookup_trigger (emergency_triggers rm) ''max_drawdown'' of
        Inl e \<Rightarrow> Inl e
      | Inr md \<Rightarrow>
          if drawdown > md
          then Inr (True, ''Maximum drawdown exceeded: '' @ fmt drawdown)
          else
     (let daily_pl = sum_daily_pl (map snd portfolio);
          daily_pl_pct = daily_pl_pct_of daily_pl total_value in
      case lookup_trigger (emergency_triggers rm) ''max_daily_loss'' of
        Inl e \<Rightarrow> Inl e
      | Inr mdl \<Rightarrow>
          if daily_pl_pct < - mdl
          then Inr (True, ''Maximum daily loss exceeded: '' @ fmt daily_pl_pct)
          else check_conditions fmt (emergency_triggers rm) (market_conditions rm)))))"

text \<open>The function with its \<open>except Exception\<close> handler.\<close>

definition check_emergency_shutdown ::
  "(real \<Rightarrow> string) \<Rightarrow> risk_manager \<Rightarrow> (string \<times> pos_dict) list \<Rightarrow> bool \<times> string" where
  "check_emergency_shutdown fmt rm portfolio =
     (case shutdown_body fmt rm portfolio of
        Inl e \<Rightarrow> (True, ''Error in risk assessment: '' @ str_of_error e)
      | Inr r \<Rightarrow> r)"

text \<open>The configuration of \<open>trading_config.py\<close> (\<open>RISK_CONFIG['emergency_triggers']\<close>).\<close>

definition default_triggers :: "string \<rightharpoonup> real" where
  "default_triggers =
     [''max_drawdown'' \<mapsto> 0.15, ''max_daily_loss'' \<mapsto> 0.05,
      ''min_liquidity'' \<mapsto> 1000000, ''max_volatility'' \<mapsto> 0.05]"





subsection \<open>update\_correlation\_matrix\<close>

text \<open>
  A price series is the list of its values; all series of one call share one index, so
  that equal positions are equal index labels, and a shorter series has no value at the
  later labels. \<open>prices.pct_change().dropna()\<close> gives at each label after the first the
  relative change; where the previous price is 0 the quotient is infinite or NaN and
  takes no part in a correlation, which is \<open>None\<close> here.
\<close>

definition pct_change_dropna :: "real list \<Rightarrow> nfloat list" where
  "pct_change_dropna prices =
     map (\<lambda>(prev, cur). if prev = 0 then None else Some (cur / prev - 1)) (zip prices (tl prices))"

text \<open>
  \<open>DataFrame.corr()\<close> is the Pearson correlation of the library, taken for each pair of
  columns over the rows where both values are finite, with at least one such row
  required; a zero divisor gives NaN, and the quotient is clipped to the interval from
  -1 to 1. The sums are those the library accumulates, written in closed form.
\<close>

definition finite_pairs :: "nfloat list \<Rightarrow> nfloat list \<Rightarrow> (real \<times> real) list" where
  "finite_pairs xs ys =
     List.map_filter (\<lambda>(x, y). case x of None \<Rightarrow> None | Some a \<Rightarrow> map_option (Pair a) y) (zip xs ys)"

definition mean_of :: "real list \<Rightarrow> real" where
  "mean_of vs = sum_list vs / real (length vs)"

definition ssqdm :: "real list \<Rightarrow> real" where
  "ssqdm vs = sum_list (map (\<lambda>v. (v - mean_of vs) * (v - mean_of vs)) vs)"

definition covxy :: "(real \<times> real) list \<Rightarrow> real" where
  "covxy obs =
     sum_list (map (\<lambda>(x, y). (x - mean_of (map fst obs)) * (y - mean_of (map snd obs))) obs)"

definition clip_unit :: "real \<Rightarrow> real" where
  "clip_unit val = (if val > 1 then 1 else if val < - 1 then - 1 else val)"

definition nancorr_entry :: "nfloat list \<Rightarrow> nfloat list \<Rightarrow> nfloat" where
  "nancorr_entry xs ys =
     (let obs = finite_pairs xs ys;
          nobs = length obs
      in if nobs < 1 then None
         else (let divisor = sqrt (ssqdm (map fst obs) * ssqdm (map snd obs))
               in if divisor \<noteq> 0 then Some (clip_unit (covxy obs / divisor)) else None))"

definition corr :: "(string \<times> nfloat list) list \<Rightarrow> frame" where
  "corr df = map (\<lambda>(a, xa). (a, map (\<lambda>(b, xb). (b, nancorr_entry xb xa)) df)) df"

text \<open>\<open>Series.mean()\<close> skips NaN and is NaN when nothing is left.\<close>

definition nanmean :: "nfloat list \<Rightarrow> nfloat" where
  "nanmean xs =
     (let vs = List.map_filter id xs in if vs = [] then None else Some (mean_of vs))"

text \<open>The function; \<open>now\<close> is \<open>datetime.now()\<close>. With series as inputs nothing in the
  body raises.\<close>

definition update_correlation_matrix ::
  "real \<Rightarrow> risk_manager \<Rightarrow> (string \<times> real list) list \<Rightarrow> risk_manager" where
  "update_correlation_matrix now rm price_data =
     (let returns_df = map (\<lambda>(symbol, prices). (symbol, pct_change_dropna prices)) price_data;
          m = corr returns_df;
          conds = map (\<lambda>(symbol, c).
                    case map_of m symbol of
                      None \<Rightarrow> (symbol, c)
                    | Some col \<Rightarrow> (symbol, c\<lparr>correlation := nanmean (map snd col)\<rparr>))
                  (market_conditions rm)
      in rm\<lparr>market_conditions := conds, correlation_matrix := Some m, last_update := Some now\<rparr>)"

text \<open>Reading the frame: the entry at a row and a column label (\<open>None\<close> when a label is
  absent), and the row of a label across all columns.\<close>

definition frame_at :: "frame \<Rightarrow> string \<Rightarrow> string \<Rightarrow> nfloat option" where
  "frame_at m row col = (case map_of m col of None \<Rightarrow> None | Some c \<Rightarrow> map_of c row)"

definition frame_row :: "frame \<Rightarrow> string \<Rightarrow> nfloat list" where
  "frame_row m row = List.map_filter (\<lambda>(col, c). map_of c row) m"

text \<open>A price series is non-degenerate when its returns take two different finite
  values.\<close>

definition nondegenerate :: "real list \<Rightarrow> bool" where
  "nondegenerate prices =
     (let vs = List.map_filter id (pct_change_dropna prices)
      in list_ex (\<lambda>x. list_ex (\<lambda>y. x \<noteq> y) vs) vs)"

text \<open>
  For stating what the matrix holds: the return series of a price series without a zero
  price, and the correlation coefficient of two equally long series as it is usually
  written, the sum of the products of the deviations from the means over the product of
  the roots of the sums of their squares. A family is aligned when no price is zero and
  all series have the same length, so that every return is finite and every pair of
  series is complete.
\<close>

definition returns_of :: "real list \<Rightarrow> real list" where
  "returns_of prices = map (\<lambda>(prev, cur). cur / prev - 1) (zip prices (tl prices))"

definition spec_pearson :: "real list \<Rightarrow> real list \<Rightarrow> real" where
  "spec_pearson xs ys =
     (let mx = sum_list xs / real (length xs);
          my = sum_list ys / real (length ys)
      in (\<Sum>(x, y)\<leftarrow>zip xs ys. (x - mx) * (y - my))
           / (sqrt (\<Sum>x\<leftarrow>xs. (x - mx)\<^sup>2) * sqrt (\<Sum>y\<leftarrow>ys. (y - my)\<^sup>2)))"

definition aligned :: "(string \<times> real list) list \<Rightarrow> bool" where
  "aligned price_data =
     list_all (\<lambda>(s, prices). list_all (\<lambda>p. p \<noteq> 0) prices
                 \<and> length prices = length (snd (hd price_data))) price_data"

subsection \<open>Concrete risk managers and portfolios\<close>

definition rm_empty :: risk_manager where
  "rm_empty = \<lparr>emergency_triggers = default_triggers, market_conditions = [],
     correlation_matrix = None, last_update = None\<rparr>"


definition rm_calm :: risk_manager where
  "rm_calm = \<lparr>emergency_triggers = default_triggers,
     market_conditions =
       [(''A'', \<lparr>volatility = 0.01, correlation = Some 0, trend_strength = 0, liquidity = 1, sentiment = 0.5\<rparr>)],
     correlation_matrix = None, last_update = None\<rparr>"



definition mc_reference :: MarketCondition where
  "mc_reference = \<lparr>volatility = 0.02, correlation = Some 0, trend_strength = 0, liquidity = 1, sentiment = 0.5\<rparr>"

definition prices_pair :: "(string \<times> real list) list" where
  "prices_pair = [(''A'', [1, 2, 2, 3]), (''B'', [1, 2, 3, 3])]"

definition rm_three :: risk_manager where
  "rm_three = \<lparr>emergency_triggers = default_triggers,
     market_conditions =
       [(''A'', \<lparr>volatility = 0.01, correlation = Some 0, trend_strength = 0, liquidity = 1, sentiment = 0.5\<rparr>),
        (''B'', \<lparr>volatility = 0.02, correlation = Some 0, trend_strength = 0, liquidity = 1, sentiment = 0.5\<rparr>),
        (''Z'', \<lparr>volatility = 0.03, correlation = Some 0, trend_strength = 0, liquidity = 1, sentiment = 0.5\<rparr>)],
     correlation_matrix = None, last_update = None\<rparr>"

section \<open>strategy\_optimizer.py\<close>

record MarketRegime =
  regime_type :: string
  strength :: real
  direction :: real
  confidence :: real

subsection \<open>detect\_market\_regime\<close>

text \<open>
  The indicator library (\<open>ta\<close>) is outside the repository. The embedding takes the last
  values of the indicator series as the input: \<open>Inr\<close> of the five numbers the function
  reads, or \<open>Inl\<close> when computing or indexing them raises (missing column, empty frame).
\<close>

record indicators =
  current_adx :: real
  current_atr :: real
  current_bb_width :: real
  sma_20_last :: real
  sma_50_last :: real

text \<open>
  In the third branch the code calls \<open>.rolling(100)\<close> on \<open>current_atr\<close>, which is the
  scalar \<open>atr.iloc[-1]\<close> and has no such attribute: the branch raises.
\<close>

definition rolling_error :: py_error where
  "rolling_error = AttributeError ''numpy.float64 object has no attribute rolling''"

definition regime_body :: "py_error + indicators \<Rightarrow> py_error + MarketRegime" where
  "regime_body ind =
     (case ind of
        Inl e \<Rightarrow> Inl e
      | Inr i \<Rightarrow>
          (let trend_strength = current_adx i / 100.0;
               direction = sgn (sma_20_last i - sma_50_last i)
           in if current_adx i > 25
              then Inr \<lparr>regime_type = ''trending'', strength = trend_strength,
                        direction = direction, confidence = min (current_adx i / 50.0) 1.0\<rparr>
              else if current_bb_width i < 0.1
              then Inr \<lparr>regime_type = ''ranging'', strength = trend_strength,
                        direction = direction, confidence = 1.0 - current_bb_width i\<rparr>
              else Inl rolling_error))"

definition unknown_regime :: MarketRegime where
  "unknown_regime = \<lparr>regime_type = ''unknown'', strength = 0.0, direction = 0.0, confidence = 0.0\<rparr>"

text \<open>The function returns the regime and the updated \<open>self.market_regimes\<close>; the
  handler returns the unknown regime and stores nothing.\<close>

definition detect_market_regime ::
  "(string \<rightharpoonup> MarketRegime) \<Rightarrow> py_error + indicators \<Rightarrow> string
     \<Rightarrow> MarketRegime \<times> (string \<rightharpoonup> MarketRegime)" where
  "detect_market_regime market_regimes ind symbol =
     (case regime_body ind of
        Inl e \<Rightarrow> (unknown_regime, market_regimes)
      | Inr regime \<Rightarrow> (regime, market_regimes(symbol \<mapsto> regime)))"

subsection \<open>predict\<close>

text \<open>\<open>probability.max()\<close> on the array of class probabilities.\<close>

fun array_max :: "real list \<Rightarrow> py_error + real" where
  "array_max [] = Inl (ValueError ''zero-size array to reduction operation maximum which has no identity'')"
| "array_max (x # xs) = Inr (fold max xs x)"

text \<open>The regime adjustment: the whole array is multiplied by the factor of the
  recorded regime; a regime of any other type leaves it as it is.\<close>

definition adjust_probability :: "MarketRegime option \<Rightarrow> real list \<Rightarrow> real list" where
  "adjust_probability recorded probability =
     (case recorded of
        None \<Rightarrow> probability
      | Some regime \<Rightarrow>
          if regime_type regime = ''trending''
          then map (\<lambda>p. p * (1 + strength regime * confidence regime)) probability
          else if regime_type regime = ''ranging''
          then map (\<lambda>p. p * (1 - confidence regime * 0.5)) probability
          else if regime_type regime = ''volatile''
          then map (\<lambda>p. p * (1 - confidence regime * 0.7)) probability
          else probability)"

text \<open>
  \<open>trained\<close> is the set of keys present in both \<open>self.models\<close> and \<open>self.scalers\<close>.
  The feature pipeline, the scaler and the classifier are outside the core:
  \<open>model_out\<close> is what they give on the data, \<open>Inr (prediction, probability)\<close> with
  the class-probability array, or \<open>Inl\<close> when one of them raises.
\<close>

definition predict_body ::
  "string set \<Rightarrow> (string \<rightharpoonup> MarketRegime) \<Rightarrow> string \<Rightarrow> string
     \<Rightarrow> py_error + (int \<times> real list) \<Rightarrow> py_error + (int \<times> real)" where
  "predict_body trained market_regimes symbol timeframe model_out =
     (let model_key = symbol @ ''_'' @ timeframe
      in if model_key \<notin> trained
         then Inl (ValueError (''Model not found for '' @ model_key))
         else case model_out of
                Inl e \<Rightarrow> Inl e
              | Inr (prediction, probability) \<Rightarrow>
                  (case array_max (adjust_probability (market_regimes symbol) probability) of
                     Inl e \<Rightarrow> Inl e
                   | Inr m \<Rightarrow> Inr (prediction, m)))"

definition predict ::
  "string set \<Rightarrow> (string \<rightharpoonup> MarketRegime) \<Rightarrow> string \<Rightarrow> string
     \<Rightarrow> py_error + (int \<times> real list) \<Rightarrow> int \<times> real" where
  "predict trained market_regimes symbol timeframe model_out =
     (case predict_body trained market_regimes symbol timeframe model_out of
        Inl e \<Rightarrow> (0, 0.0)
      | Inr r \<Rightarrow> r)"

text \<open>The factor in the words of the specification.\<close>

definition spec_regime_factor :: "MarketRegime \<Rightarrow> real" where
  "spec_regime_factor r =
     (if regime_type r = ''trending'' then 1 + strength r * confidence r
      else if regime_type r = ''ranging'' then 1 - confidence r * 0.5
      else if regime_type r = ''volatile'' then 1 - confidence r * 0.7
      else 1)"

text \<open>Class probabilities lie between 0 and 1.\<close>

definition probabilities_ok :: "real list \<Rightarrow> bool" where
  "probabilities_ok probability = list_all (\<lambda>p. 0 \<le> p \<and> p \<le> 1) probability"

subsection \<open>Concrete regimes and indicator values\<close>

definition regime_trending_08 :: MarketRegime where
  "regime_trending_08 =
     \<lparr>regime_type = ''trending'', strength = 0.5, direction = 1, confidence = 0.8\<rparr>"

definition regime_ranging_09 :: MarketRegime where
  "regime_ranging_09 =
     \<lparr>regime_type = ''ranging'', strength = 0.1, direction = 1, confidence = 0.9\<rparr>"

definition ind_below_band :: indicators where
  "ind_below_band =
     \<lparr>current_adx = 10, current_atr = 1, current_bb_width = - 0.2, sma_20_last = 1, sma_50_last = 1\<rparr>"

definition ind_strong_trend :: indicators where
  "ind_strong_trend =
     \<lparr>current_adx = 40, current_atr = 1, current_bb_width = 0.5, sma_20_last = 2, sma_50_last = 1\<rparr>"

section \<open>trading\_engine.py\<close>

subsection \<open>\_combine\_signals\<close>

text \<open>
  The module uses \<open>np.sign\<close> but never imports \<open>numpy\<close> (its imports are \<open>os\<close>, \<open>sys\<close>,
  \<open>logging\<close>, \<open>asyncio\<close>, \<open>signal\<close>, \<open>typing\<close>, \<open>datetime\<close>, \<open>pandas\<close> and the
  repository's own modules): evaluating the amplification raises \<open>NameError\<close>.
\<close>

definition np_name_error :: py_error where
  "np_name_error = NameError ''name np is not defined''"

text \<open>The body of the \<open>try\<close> block. \<open>prediction_threshold\<close> is
  \<open>DEEP_LEARNING_CONFIG['prediction_threshold']\<close>.\<close>

definition combine_body :: "real \<Rightarrow> real \<Rightarrow> int \<Rightarrow> real \<Rightarrow> real \<Rightarrow> py_error + real" where
  "combine_body prediction_threshold traditional_signal dl_action dl_confidence dl_return =
     (let dl_signal = (if dl_action = 0 then 0.0
                       else if dl_action = 1 then 1.0
                       else if dl_action = 2 then - 1.0
                       else 0.0);
          traditional_weight = 0.4;
          dl_weight = 0.6 * dl_confidence
      in if traditional_weight + dl_weight = 0
         then Inl (ZeroDivisionError ''float division by zero'')
         else (let combined = (traditional_signal * traditional_weight + dl_signal * dl_weight)
                                / (traditional_weight + dl_weight)
               in if \<bar>dl_return\<bar> > prediction_threshold
                  then Inl np_name_error
                  else Inr combined))"

definition combine_signals :: "real \<Rightarrow> real \<Rightarrow> int \<Rightarrow> real \<Rightarrow> real \<Rightarrow> real" where
  "combine_signals prediction_threshold traditional_signal dl_action dl_confidence dl_return =
     (case combine_body prediction_threshold traditional_signal dl_action dl_confidence dl_return of
        Inl e \<Rightarrow> 0.0
      | Inr combined \<Rightarrow> combined)"

text \<open>The combination in the words of the specification.\<close>

definition spec_combine :: "real \<Rightarrow> real \<Rightarrow> int \<Rightarrow> real \<Rightarrow> real \<Rightarrow> real" where
  "spec_combine prediction_threshold traditional_signal predictor_action
       predictor_confidence predictor_return =
     (let mapped_action = (if predictor_action = 1 then 1
                           else if predictor_action = 2 then - 1 else 0);
          combined = (traditional_signal * 0.4 + mapped_action * 0.6 * predictor_confidence)
                       / (0.4 + 0.6 * predictor_confidence)
      in if \<bar>predictor_return\<bar> > prediction_threshold
         then combined * (1 + sgn predictor_return * min \<bar>predictor_return\<bar> 0.1)
         else combined)"

subsection \<open>The engine's state and its collaborators\<close>

text \<open>
  A position is the order dict the exchange returned, stored under its symbol; every
  key the engine or the risk manager reads may be absent.
\<close>

record position = pos_dict +
  price :: "real option"
  amount :: "real option"
  stop_loss :: "real option"
  stop_loss_order_id :: "string option"

record trading_config =
  symbols :: "string list"
  max_open_positions :: int
  confidence_threshold :: real
  prediction_threshold :: real

text \<open>
  What the engine awaits or calls outside itself, as functions of the arguments it
  passes; \<open>Inl\<close> is a call that raises. \<open>get_portfolio\<close>, \<open>calculate_position_size\<close>,
  \<open>calculate_trailing_stop\<close> and \<open>update_order\<close> are called by the engine but defined
  nowhere in the repository; \<open>execute_order\<close> belongs to the exchange layer.
  \<open>get_portfolio\<close> gives the value under \<open>'total_value'\<close> if the key is there;
  \<open>signal_inputs\<close> gives the final signal of the multi-timeframe analysis and the
  triple of the predictor; \<open>last_close\<close> is the last close of the one-minute bars;
  \<open>execute_order\<close> gives the order dict, or \<open>None\<close> for a falsy result.
  \<open>await_emergency\<close> is the outcome of awaiting the pair that
  \<open>check_emergency_shutdown\<close> returned.
\<close>

record engine_env =
  get_portfolio :: "py_error + real option"
  signal_inputs :: "string \<Rightarrow> py_error + (real \<times> int \<times> real \<times> real)"
  last_close :: "string \<Rightarrow> py_error + real"
  calculate_position_size :: "string \<Rightarrow> real \<Rightarrow> real \<Rightarrow> py_error + real"
  execute_order :: "string \<Rightarrow> string \<Rightarrow> real \<Rightarrow> string \<Rightarrow> real option \<Rightarrow> py_error + position option"
  calculate_trailing_stop :: "real \<Rightarrow> real \<Rightarrow> py_error + real"
  update_order :: "string \<Rightarrow> string \<Rightarrow> real \<Rightarrow> py_error + unit"
  await_emergency :: "bool \<times> string \<Rightarrow> py_error + (bool \<times> string)"

text \<open>
  \<open>check_emergency_shutdown\<close> is a plain function, not a coroutine: awaiting the pair
  it returns raises \<open>TypeError\<close>. This is the \<open>await_emergency\<close> of the code as written.
\<close>

definition await_tuple :: "bool \<times> string \<Rightarrow> py_error + (bool \<times> string)" where
  "await_tuple r = Inl (TypeError ''object tuple can not be used in await expression'')"

subsection \<open>\_check\_and\_execute\_trades\<close>

text \<open>
  The loop over the configured symbols, on the dict \<open>self.positions\<close>. An exception
  leaves the loop through the handler of the function and keeps the positions stored
  so far; \<open>break\<close> does the same. \<open>self.positions[symbol] = order\<close> is \<open>AList.update\<close>.
\<close>

fun trade_loop ::
  "trading_config \<Rightarrow> engine_env \<Rightarrow> risk_manager \<Rightarrow> real option \<Rightarrow> string list
     \<Rightarrow> (string \<times> position) list \<Rightarrow> (string \<times> position) list" where
  "trade_loop cfg env rm portfolio_total [] positions = positions"
| "trade_loop cfg env rm portfolio_total (symbol # rest) positions =
     (if int (length positions) \<ge> max_open_positions cfg then positions
      else case signal_inputs env symbol of
        Inl e \<Rightarrow> positions
      | Inr (traditional_signal, dl_action, dl_confidence, dl_return) \<Rightarrow>
          (let combined_signal = combine_signals (prediction_threshold cfg)
                                   traditional_signal dl_action dl_confidence dl_return
           in if combined_signal > confidence_threshold cfg
              then (case last_close env symbol of
                      Inl e \<Rightarrow> positions
                    | Inr close \<Rightarrow>
                   (case portfolio_total of
                      None \<Rightarrow> positions
                    | Some total_value \<Rightarrow>
                   (case calculate_position_size env symbol close total_value of
                      Inl e \<Rightarrow> positions
                    | Inr position_size \<Rightarrow>
                        if position_size > 0
                        then (case execute_order env symbol ''BUY'' position_size ''MARKET'' None of
                                Inl e \<Rightarrow> positions
                              | Inr None \<Rightarrow> trade_loop cfg env rm portfolio_total rest positions
                              | Inr (Some order) \<Rightarrow>
                                  (let positions' = AList.update symbol order positions
                                   in case price order of
                                        None \<Rightarrow> positions'
                                      | Some entry_price \<Rightarrow>
                                     (case calculate_dynamic_stop_loss rm symbol entry_price position_size None of
                                        Inl e \<Rightarrow> positions'
                                      | Inr (stop_price, target_price) \<Rightarrow>
                                     (case execute_order env symbol ''SELL'' position_size ''STOP_LOSS'' (Some stop_price) of
                                        Inl e \<Rightarrow> positions'
                                      | Inr r \<Rightarrow> trade_loop cfg env rm portfolio_total rest positions'))))
                        else trade_loop cfg env rm portfolio_total rest positions)))
              else trade_loop cfg env rm portfolio_total rest positions))"

definition check_and_execute_trades ::
  "trading_config \<Rightarrow> engine_env \<Rightarrow> risk_manager \<Rightarrow> (string \<times> position) list
     \<Rightarrow> (string \<times> position) list" where
  "check_and_execute_trades cfg env rm positions =
     (case get_portfolio env of
        Inl e \<Rightarrow> positions
      | Inr portfolio \<Rightarrow> trade_loop cfg env rm portfolio (symbols cfg) positions)"

subsection \<open>\_close\_all\_positions and \_monitor\_positions\<close>

text \<open>Both loops run over the snapshot \<open>list(self.positions.items())\<close> and change
  \<open>self.positions\<close>, the last argument.\<close>

fun close_loop ::
  "engine_env \<Rightarrow> (string \<times> position) list \<Rightarrow> (string \<times> position) list
     \<Rightarrow> (string \<times> position) list" where
  "close_loop env [] positions = positions"
| "close_loop env ((symbol, position) # rest) positions =
     (case amount position of
        None \<Rightarrow> positions
      | Some a \<Rightarrow>
          (case execute_order env symbol ''SELL'' a ''MARKET'' None of
             Inl e \<Rightarrow> positions
           | Inr r \<Rightarrow> close_loop env rest (AList.delete symbol positions)))"

definition close_all_positions ::
  "engine_env \<Rightarrow> (string \<times> position) list \<Rightarrow> (string \<times> position) list" where
  "close_all_positions env positions = close_loop env positions positions"

text \<open>The risk manager reads the position dicts as portfolio entries.\<close>

definition as_portfolio :: "(string \<times> position) list \<Rightarrow> (string \<times> pos_dict) list" where
  "as_portfolio positions = map (\<lambda>(s, p). (s, pos_dict.truncate p)) positions"

fun monitor_loop ::
  "(real \<Rightarrow> string) \<Rightarrow> engine_env \<Rightarrow> risk_manager \<Rightarrow> (string \<times> position) list
     \<Rightarrow> (string \<times> position) list \<Rightarrow> (string \<times> position) list" where
  "monitor_loop fmt env rm [] positions = positions"
| "monitor_loop fmt env rm ((symbol, position) # rest) positions =
     (case last_close env symbol of
        Inl e \<Rightarrow> positions
      | Inr current_price \<Rightarrow>
     (case price position of
        None \<Rightarrow> positions
      | Some entry_price \<Rightarrow>
     (case await_emergency env (check_emergency_shutdown fmt rm (as_portfolio positions)) of
        Inl e \<Rightarrow> positions
      | Inr (emergency_exit, reason) \<Rightarrow>
          if emergency_exit then close_all_positions env positions
          else
     (case calculate_trailing_stop env entry_price current_price of
        Inl e \<Rightarrow> positions
      | Inr new_stop \<Rightarrow>
          if new_stop > get_or (stop_loss position) 0
          then (case stop_loss_order_id position of
                  None \<Rightarrow> positions
                | Some order_id \<Rightarrow>
                    (case update_order env symbol order_id new_stop of
                       Inl e \<Rightarrow> positions
                     | Inr r \<Rightarrow>
                         monitor_loop fmt env rm rest
                           (AList.map_entry symbol (\<lambda>p. p\<lparr>stop_loss := Some new_stop\<rparr>) positions)))
          else monitor_loop fmt env rm rest positions))))"

definition monitor_positions ::
  "(real \<Rightarrow> string) \<Rightarrow> engine_env \<Rightarrow> risk_manager \<Rightarrow> (string \<times> position) list
     \<Rightarrow> (string \<times> position) list" where
  "monitor_positions fmt env rm positions = monitor_loop fmt env rm positions positions"

text \<open>
  The relation between a position before and after a pass: its stored stop is the
  same, or it is a new value strictly above the old one (above 0 when none was stored,
  as \<open>position.get('stop_loss', 0)\<close> reads it).
\<close>

definition stop_moved_up :: "position \<Rightarrow> position \<Rightarrow> bool" where
  "stop_moved_up p p' =
     (stop_loss p' = stop_loss p \<or>
      (case stop_loss p' of None \<Rightarrow> False | Some v' \<Rightarrow> get_or (stop_loss p) 0 < v'))"

subsection \<open>A concrete engine\<close>

definition cfg_one :: trading_config where
  "cfg_one = \<lparr>symbols = [''BTC/USDT'', ''ETH/USDT'', ''BNB/USDT''], max_open_positions = 1,
     confidence_threshold = 0.7, prediction_threshold = 0.02\<rparr>"

definition filled_order :: position where
  "filled_order = \<lparr>pos_value = Some 110, pos_peak_value = Some 110, pos_daily_pl = Some 0,
     price = Some 100, amount = Some 1, stop_loss = Some 98, stop_loss_order_id = Some ''sl-1''\<rparr>"

definition env_ok :: engine_env where
  "env_ok = \<lparr>get_portfolio = Inr (Some 1000),
     signal_inputs = (\<lambda>s. Inr (1, 1, 1, 0)),
     last_close = (\<lambda>s. Inr 110),
     calculate_position_size = (\<lambda>s c t. Inr 1),
     execute_order = (\<lambda>s side a t p. Inr (Some filled_order)),
     calculate_trailing_stop = (\<lambda>e c. Inr (c * 0.95)),
     update_order = (\<lambda>s i p. Inr ()),
     await_emergency = Inr\<rparr>"

section \<open>Properties of the risk manager\<close>

subsection \<open>The dynamic stop-loss\<close>

lemma spec_final_stop_pct_range:
  "0.01 \<le> spec_final_stop_pct vol trend \<and> spec_final_stop_pct vol trend \<le> 0.05"
  by (simp add: spec_final_stop_pct_def Let_def)

text \<open>
  C2. Whenever a market condition is available (passed in, or stored for the symbol),
  the function returns the stop at \<open>entry * (1 - p)\<close> and the target at
  \<open>entry * (1 + 2 p)\<close>, where \<open>p\<close> is \<open>0.02 * (volatility / 0.02) * (1 + trend_strength / 100)\<close>
  clamped to the interval from 0.01 to 0.05; \<open>p\<close> always lies in that interval. This holds
  for every volatility and trend strength, the non-negative ones included.
\<close>

theorem calculate_dynamic_stop_loss_formula:
  assumes "(case market_condition of
              None \<Rightarrow> map_of (market_conditions rm) symbol
            | Some c \<Rightarrow> Some c) = Some mc"
  shows "calculate_dynamic_stop_loss rm symbol entry_price position_size market_condition =
           Inr (entry_price * (1 - spec_final_stop_pct (volatility mc) (trend_strength mc)),
                entry_price * (1 + 2 * spec_final_stop_pct (volatility mc) (trend_strength mc)))
         \<and> 0.01 \<le> spec_final_stop_pct (volatility mc) (trend_strength mc)
         \<and> spec_final_stop_pct (volatility mc) (trend_strength mc) \<le> 0.05"
  using assms
  by (simp add: calculate_dynamic_stop_loss_def stop_loss_body_def spec_final_stop_pct_def
      Let_def min_def max_def)

text \<open>The scenario of the specification: entry 100, volatility 0.02, trend strength 0
  give the stop 98 and the target 104.\<close>

theorem calculate_dynamic_stop_loss_formula_witness:
  "calculate_dynamic_stop_loss rm_empty ''BTC/USDT'' 100 1 (Some mc_reference) = Inr (98, 104)"
  using calculate_dynamic_stop_loss_formula
          [where market_condition = "Some mc_reference" and rm = rm_empty
             and symbol = "''BTC/USDT''" and mc = mc_reference
             and entry_price = 100 and position_size = 1]
  by (simp add: mc_reference_def spec_final_stop_pct_def)

text \<open>
  C8 as the specification states it: with no stored and no passed condition the call
  fails with an error. It does not: at entry price 100 the call returns the pair
  (98, 104), although the body of its \<open>try\<close> block has raised \<open>ValueError\<close>.
\<close>

theorem calculate_dynamic_stop_loss_no_data_counterexample:
  "\<not> isl (calculate_dynamic_stop_loss rm_empty ''BTC/USDT'' 100 1 None)
   \<and> calculate_dynamic_stop_loss rm_empty ''BTC/USDT'' 100 1 None = Inr (98, 104)
   \<and> stop_loss_body rm_empty ''BTC/USDT'' 100 1 None
       = Inl (ValueError ''No market condition data for BTC/USDT'')"
  by (simp add: calculate_dynamic_stop_loss_def stop_loss_body_def rm_empty_def)

text \<open>
  C8, amended. With no stored and no passed condition the function itself returns the
  fixed pair \<open>(entry * 0.98, entry * 1.04)\<close>; no error reaches the caller.
\<close>

theorem calculate_dynamic_stop_loss_no_data_fallback:
  assumes "map_of (market_conditions rm) symbol = None"
  shows "calculate_dynamic_stop_loss rm symbol entry_price position_size None
           = Inr (entry_price * 0.98, entry_price * 1.04)"
  using assms by (simp add: calculate_dynamic_stop_loss_def stop_loss_body_def)

theorem calculate_dynamic_stop_loss_no_data_fallback_witness:
  "map_of (market_conditions rm_empty) ''ETH/USDT'' = None
   \<and> calculate_dynamic_stop_loss rm_empty ''ETH/USDT'' 200 1 None = Inr (196, 208)"
proof -
  have h: "map_of (market_conditions rm_empty) ''ETH/USDT'' = None"
    by (simp add: rm_empty_def)
  show ?thesis
    using h calculate_dynamic_stop_loss_no_data_fallback [OF h, where entry_price = 200 and position_size = 1] by simp
qed

subsection \<open>The emergency shutdown\<close>







text \<open>
  C10. On an empty portfolio the peak is a maximum over nothing, which raises; the
  handler turns the exception into an emergency: the result is \<open>True\<close> with a non-empty
  reason, whatever the risk manager holds, and never \<open>(False, '''')\<close>.
\<close>

theorem check_emergency_shutdown_empty_portfolio:
  "check_emergency_shutdown fmt rm []
     = (True, ''Error in risk assessment: '' @ empty_max_message)
   \<and> shutdown_body fmt rm [] = Inl (ValueError empty_max_message)
   \<and> check_emergency_shutdown fmt rm [] \<noteq> (False, '''')"
  by (simp add: check_emergency_shutdown_def shutdown_body_def)

subsection \<open>The correlation matrix\<close>

lemma finite_pairs_swap: "finite_pairs ys xs = map prod.swap (finite_pairs xs ys)"
proof (induction xs arbitrary: ys)
  case Nil
  show ?case by (simp add: finite_pairs_def)
next
  case (Cons x xs)
  show ?case
  proof (cases ys)
    case Nil
    then show ?thesis by (simp add: finite_pairs_def)
  next
    case (Cons y ys')
    with Cons.IH [of ys'] show ?thesis
      by (cases x; cases y) (simp_all add: finite_pairs_def)
  qed
qed

lemma sum_products_swap:
  "(\<Sum>(x, y)\<leftarrow>map prod.swap obs. (x - my) * (y - mx)) = (\<Sum>(x, y)\<leftarrow>obs. (x - mx) * (y - (my::real)))"
  by (induction obs) (auto simp: mult.commute)

lemma covxy_swap: "covxy (map prod.swap obs) = covxy obs"
proof -
  have a: "map fst (map prod.swap obs) = map snd obs"
    and b: "map snd (map prod.swap obs) = map fst obs"
    by (simp_all add: comp_def)
  show ?thesis unfolding covxy_def a b by (rule sum_products_swap)
qed

lemma nancorr_entry_sym: "nancorr_entry xs ys = nancorr_entry ys xs"
proof -
  have 1: "map fst (finite_pairs ys xs) = map snd (finite_pairs xs ys)"
    by (simp add: finite_pairs_swap [of ys xs] comp_def)
  have 2: "map snd (finite_pairs ys xs) = map fst (finite_pairs xs ys)"
    by (simp add: finite_pairs_swap [of ys xs] comp_def)
  have 3: "covxy (finite_pairs ys xs) = covxy (finite_pairs xs ys)"
    by (simp add: finite_pairs_swap [of ys xs] covxy_swap)
  have 4: "length (finite_pairs ys xs) = length (finite_pairs xs ys)"
    by (simp add: finite_pairs_swap [of ys xs])
  show ?thesis
    unfolding nancorr_entry_def Let_def 1 2 3 4 by (simp add: mult.commute)
qed

lemma finite_pairs_diag: "finite_pairs xs xs = map (\<lambda>a. (a, a)) (List.map_filter id xs)"
proof (induction xs)
  case Nil
  show ?case by (simp add: finite_pairs_def)
next
  case (Cons x xs)
  then show ?case
    by (cases x) (simp_all add: finite_pairs_def)
qed

lemma covxy_diag: "covxy (map (\<lambda>a. (a, a)) vs) = ssqdm vs"
  by (simp add: covxy_def ssqdm_def comp_def)

lemma ssqdm_nonneg: "0 \<le> ssqdm vs"
  unfolding ssqdm_def by (rule sum_list_nonneg) auto

lemma ssqdm_zero_const:
  assumes "ssqdm vs = 0" and "v \<in> set vs"
  shows "v = mean_of vs"
proof -
  have "\<forall>x \<in> set (map (\<lambda>v. (v - mean_of vs) * (v - mean_of vs)) vs). x = 0"
    using assms(1) unfolding ssqdm_def
    by (subst (asm) sum_list_nonneg_eq_0_iff) auto
  with assms(2) have "(v - mean_of vs) * (v - mean_of vs) = 0" by auto
  then show ?thesis by simp
qed

lemma nondegenerate_ssqdm:
  assumes "nondegenerate prices"
  shows "ssqdm (List.map_filter id (pct_change_dropna prices)) \<noteq> 0"
proof
  let ?vs = "List.map_filter id (pct_change_dropna prices)"
  assume z: "ssqdm ?vs = 0"
  from assms obtain a b where "a \<in> set ?vs" "b \<in> set ?vs" and ab: "a \<noteq> b"
    unfolding nondegenerate_def Let_def list_ex_iff by auto
  with z have "a = mean_of ?vs" "b = mean_of ?vs"
    by (auto dest: ssqdm_zero_const)
  with ab show False by simp
qed

lemma nancorr_entry_diag:
  assumes "ssqdm (List.map_filter id xs) \<noteq> 0"
  shows "nancorr_entry xs xs = Some 1"
proof -
  let ?vs = "List.map_filter id xs"
  let ?s = "ssqdm ?vs"
  have ne: "?vs \<noteq> []"
    using assms by (auto simp: ssqdm_def)
  have pos: "0 < ?s"
    using assms ssqdm_nonneg [of ?vs] by simp
  have div: "sqrt (?s * ?s) = ?s"
    using pos by simp
  have "covxy (finite_pairs xs xs) / sqrt (?s * ?s) = 1"
    using pos by (simp add: finite_pairs_diag covxy_diag div)
  then show ?thesis
    using ne pos
    by (simp add: nancorr_entry_def Let_def finite_pairs_diag comp_def clip_unit_def)
qed

lemma map_of_map_values:
  "map_of (map (\<lambda>(a, xa). (a, g xa)) ys) a = map_option g (map_of ys a)"
  by (induction ys) auto

lemma map_of_corr:
  "map_of (corr df) a
     = map_option (\<lambda>xa. map (\<lambda>(b, xb). (b, nancorr_entry xb xa)) df) (map_of df a)"
  unfolding corr_def by (rule map_of_map_values)

lemma map_of_column:
  "map_of (map (\<lambda>(b, xb). (b, nancorr_entry xb xa)) df) b
     = map_option (\<lambda>xb. nancorr_entry xb xa) (map_of df b)"
  by (rule map_of_map_values)

lemma frame_at_corr:
  "frame_at (corr df) r c
     = (case map_of df c of
          None \<Rightarrow> None
        | Some xc \<Rightarrow> map_option (\<lambda>xr. nancorr_entry xr xc) (map_of df r))"
  by (simp add: frame_at_def map_of_corr map_of_column split: option.splits)

lemma frame_at_corr_sym: "frame_at (corr df) a b = frame_at (corr df) b a"
  by (auto simp: frame_at_corr nancorr_entry_sym split: option.splits)

lemma frame_row_corr:
  assumes "map_of df s = Some xs"
  shows "frame_row (corr df) s = map (\<lambda>(c, xc). nancorr_entry xs xc) df"
proof -
  have "List.map_filter (\<lambda>(col, c). map_of c s)
          (map (\<lambda>(a, xa). (a, map (\<lambda>(b, xb). (b, nancorr_entry xb xa)) df)) ys)
        = map (\<lambda>(c, xc). nancorr_entry xs xc) ys" for ys
    using assms by (induction ys) (auto simp: map_of_column)
  then show ?thesis by (simp add: frame_row_def corr_def)
qed

lemma column_corr:
  assumes "map_of (corr df) s = Some col" and "map_of df s = Some xs"
  shows "map snd col = frame_row (corr df) s"
proof -
  from assms have "col = map (\<lambda>(b, xb). (b, nancorr_entry xb xs)) df"
    by (simp add: map_of_corr)
  then have "map snd col = map (\<lambda>(b, xb). nancorr_entry xb xs) df"
    by (simp add: comp_def split_def)
  also have "\<dots> = map (\<lambda>(c, xc). nancorr_entry xs xc) df"
    by (simp add: nancorr_entry_sym [of _ xs])
  finally show ?thesis using assms(2) by (simp add: frame_row_corr)
qed

lemma map_of_returns:
  "map_of (map (\<lambda>(symbol, prices). (symbol, pct_change_dropna prices)) price_data) s
     = map_option pct_change_dropna (map_of price_data s)"
  by (rule map_of_map_values)

lemma update_matrix:
  "correlation_matrix (update_correlation_matrix now rm price_data)
     = Some (corr (map (\<lambda>(symbol, prices). (symbol, pct_change_dropna prices)) price_data))"
  by (simp add: update_correlation_matrix_def Let_def)

lemma diag_one:
  assumes nd: "\<forall>(s, prices) \<in> set price_data. nondegenerate prices"
      and a: "a \<in> fst ` set price_data"
  shows "frame_at (corr (map (\<lambda>(symbol, prices). (symbol, pct_change_dropna prices)) price_data)) a a
           = Some (Some 1)"
proof -
  from a obtain prices where m: "map_of price_data a = Some prices"
    by (metis domD dom_map_of_conv_image_fst)
  then have "(a, prices) \<in> set price_data" by (rule map_of_SomeD)
  with nd have "nondegenerate prices" by auto
  then have "nancorr_entry (pct_change_dropna prices) (pct_change_dropna prices) = Some 1"
    by (intro nancorr_entry_diag nondegenerate_ssqdm)
  with m show ?thesis by (simp add: frame_at_corr map_of_returns)
qed

lemma updated_conditions_row_mean:
  assumes "(s, c) \<in> set (market_conditions (update_correlation_matrix now rm price_data))"
      and "s \<in> fst ` set price_data"
  shows "correlation c
           = nanmean (frame_row (corr (map (\<lambda>(symbol, prices). (symbol, pct_change_dropna prices)) price_data)) s)"
proof -
  let ?df = "map (\<lambda>(symbol, prices). (symbol, pct_change_dropna prices)) price_data"
  from assms(2) obtain prices where m: "map_of price_data s = Some prices"
    by (metis domD dom_map_of_conv_image_fst)
  then have df: "map_of ?df s = Some (pct_change_dropna prices)"
    by (simp add: map_of_returns)
  then obtain col where col: "map_of (corr ?df) s = Some col"
    by (simp add: map_of_corr)
  from assms(1) obtain c0 where "c = c0\<lparr>correlation := nanmean (map snd col)\<rparr>"
    using col by (auto simp: update_correlation_matrix_def Let_def split: option.splits)
  then have "correlation c = nanmean (map snd col)" by simp
  with column_corr [OF col df] show ?thesis by simp
qed

lemma update_twice_conditions:
  "market_conditions (update_correlation_matrix now' (update_correlation_matrix now rm price_data) price_data)
     = market_conditions (update_correlation_matrix now rm price_data)"
  by (auto simp: update_correlation_matrix_def Let_def split: option.splits)

lemma quad_expand:
  "(\<Sum>(x, y)\<leftarrow>obs. (x * t + y) * (x * t + y))
     = (\<Sum>(x, y)\<leftarrow>obs. x * x) * (t * t) + 2 * (\<Sum>(x, y)\<leftarrow>obs. x * y) * t + (\<Sum>(x, y)\<leftarrow>obs. y * (y::real))"
  by (induction obs) (auto simp: algebra_simps)

lemma quad_nonneg:
  "0 \<le> (\<Sum>(x, y)\<leftarrow>obs. x * x) * (t * t) + 2 * (\<Sum>(x, y)\<leftarrow>obs. x * y) * t + (\<Sum>(x, y)\<leftarrow>obs. y * (y::real))"
proof -
  have "0 \<le> (\<Sum>(x, y)\<leftarrow>obs. (x * t + y) * (x * t + y))"
    by (rule sum_list_nonneg) auto
  then show ?thesis by (simp only: quad_expand)
qed

lemma cauchy_schwarz_list:
  "(\<Sum>(x, y)\<leftarrow>obs. x * y) * (\<Sum>(x, y)\<leftarrow>obs. x * y)
     \<le> (\<Sum>(x, y)\<leftarrow>obs. x * x) * (\<Sum>(x, y)\<leftarrow>obs. y * (y::real))"
proof -
  let ?A = "\<Sum>(x, y)\<leftarrow>obs. x * x" and ?S = "\<Sum>(x, y)\<leftarrow>obs. x * y" and ?B = "\<Sum>(x, y)\<leftarrow>obs. y * y"
  have A0: "0 \<le> ?A" by (rule sum_list_nonneg) auto
  have q: "0 \<le> ?A * (t * t) + 2 * ?S * t + ?B" for t by (rule quad_nonneg)
  show ?thesis
  proof (cases "?A = 0")
    case True
    have "?S = 0"
    proof (rule ccontr)
      assume s: "?S \<noteq> 0"
      from q [of "- (?B + 1) / (2 * ?S)"] True s show False by (simp add: field_simps)
    qed
    with True show ?thesis by simp
  next
    case False
    with A0 have Ap: "0 < ?A" by simp
    from q [of "- ?S / ?A"] have "0 \<le> ?A * ((- ?S / ?A) * (- ?S / ?A)) + 2 * ?S * (- ?S / ?A) + ?B" .
    also have "?A * ((- ?S / ?A) * (- ?S / ?A)) + 2 * ?S * (- ?S / ?A) + ?B = ?B - ?S * ?S / ?A"
      using Ap by (simp add: field_simps)
    finally have "?S * ?S / ?A \<le> ?B" by simp
    then have "?S * ?S \<le> ?B * ?A" using Ap by (simp add: pos_divide_le_eq)
    then show ?thesis by (simp add: mult.commute)
  qed
qed

lemma covxy_bound:
  "covxy obs * covxy obs \<le> ssqdm (map fst obs) * ssqdm (map snd obs)"
proof -
  let ?mx = "mean_of (map fst obs)" and ?my = "mean_of (map snd obs)"
  let ?d = "map (\<lambda>(x, y). (x - ?mx, y - ?my)) obs"
  have c: "covxy obs = (\<Sum>(x, y)\<leftarrow>?d. x * y)"
    unfolding covxy_def by (simp add: comp_def split_def)
  have a: "ssqdm (map fst obs) = (\<Sum>(x, y)\<leftarrow>?d. x * x)"
    unfolding ssqdm_def by (simp add: comp_def split_def)
  have b: "ssqdm (map snd obs) = (\<Sum>(x, y)\<leftarrow>?d. y * y)"
    unfolding ssqdm_def by (simp add: comp_def split_def)
  show ?thesis unfolding a b c by (rule cauchy_schwarz_list)
qed

lemma pearson_unit:
  assumes "sqrt (ssqdm (map fst obs) * ssqdm (map snd obs)) \<noteq> 0"
  shows "\<bar>covxy obs / sqrt (ssqdm (map fst obs) * ssqdm (map snd obs))\<bar> \<le> 1"
proof -
  let ?p = "ssqdm (map fst obs) * ssqdm (map snd obs)"
  have p0: "0 \<le> ?p" by (simp add: ssqdm_nonneg)
  with assms have sp: "0 < sqrt ?p" by (simp add: less_le)
  have "\<bar>covxy obs\<bar> * \<bar>covxy obs\<bar> \<le> ?p" using covxy_bound [of obs] by simp
  then have "(\<bar>covxy obs\<bar>)\<^sup>2 \<le> ?p" by (simp add: power2_eq_square)
  then have "\<bar>covxy obs\<bar> \<le> sqrt ?p" by (rule real_le_rsqrt)
  then show ?thesis using sp by (simp add: field_simps)
qed

lemma clip_unit_id: "\<bar>v\<bar> \<le> 1 \<Longrightarrow> clip_unit v = v"
  by (auto simp: clip_unit_def)

lemma nancorr_entry_bounds: "nancorr_entry xs ys = Some r \<Longrightarrow> - 1 \<le> r \<and> r \<le> 1"
  by (auto simp: nancorr_entry_def Let_def clip_unit_def split: if_splits)

lemma pct_change_nonzero:
  assumes "list_all (\<lambda>p. p \<noteq> 0) prices"
  shows "pct_change_dropna prices = map Some (returns_of prices)"
proof -
  have "\<And>x. x \<in> set (zip prices (tl prices)) \<Longrightarrow> fst x \<noteq> 0"
    using assms by (auto simp: list_all_iff dest: set_zip_leftD)
  then show ?thesis
    unfolding pct_change_dropna_def returns_of_def by (auto simp: split_def)
qed

lemma map_filter_id_Some: "List.map_filter id (map Some us) = us"
  by (induction us) auto

lemma finite_pairs_Some: "finite_pairs (map Some us) (map Some vs) = zip us vs"
proof (induction us arbitrary: vs)
  case Nil
  show ?case by (simp add: finite_pairs_def)
next
  case (Cons u us)
  then show ?case by (cases vs) (simp_all add: finite_pairs_def)
qed

lemma length_returns_of: "length (returns_of prices) = length prices - 1"
  by (simp add: returns_of_def)

lemma spec_pearson_covxy:
  assumes "length us = length vs"
  shows "spec_pearson us vs = covxy (zip us vs) / sqrt (ssqdm us * ssqdm vs)"
proof -
  have f: "map fst (zip us vs) = us" and s: "map snd (zip us vs) = vs"
    using assms by simp_all
  have a: "(\<Sum>x\<leftarrow>us. (x - sum_list us / real (length us))\<^sup>2) = ssqdm us"
    by (simp add: ssqdm_def mean_of_def power2_eq_square)
  have b: "(\<Sum>y\<leftarrow>vs. (y - sum_list vs / real (length vs))\<^sup>2) = ssqdm vs"
    by (simp add: ssqdm_def mean_of_def power2_eq_square)
  have c: "(\<Sum>(x, y)\<leftarrow>zip us vs. (x - sum_list us / real (length us)) * (y - sum_list vs / real (length vs)))
      = covxy (zip us vs)"
    by (simp add: covxy_def f s mean_of_def)
  show ?thesis
    unfolding spec_pearson_def Let_def a b c by (simp add: real_sqrt_mult)
qed

lemma nancorr_entry_aligned:
  assumes za: "list_all (\<lambda>p. p \<noteq> 0) pa" and zb: "list_all (\<lambda>p. p \<noteq> 0) pb"
      and len: "length pa = length pb"
      and na: "nondegenerate pa" and nb: "nondegenerate pb"
  shows "nancorr_entry (pct_change_dropna pa) (pct_change_dropna pb)
           = Some (spec_pearson (returns_of pa) (returns_of pb))"
proof -
  let ?ua = "returns_of pa" and ?ub = "returns_of pb"
  have l: "length ?ua = length ?ub" using len by (simp add: length_returns_of)
  have sa: "ssqdm ?ua \<noteq> 0"
    using nondegenerate_ssqdm [OF na] by (simp add: pct_change_nonzero [OF za] map_filter_id_Some)
  have sb: "ssqdm ?ub \<noteq> 0"
    using nondegenerate_ssqdm [OF nb] by (simp add: pct_change_nonzero [OF zb] map_filter_id_Some)
  have ne: "?ua \<noteq> []" using sa by (auto simp: ssqdm_def)
  have neb: "?ub \<noteq> []" using sb by (auto simp: ssqdm_def)
  have f: "map fst (zip ?ua ?ub) = ?ua" and s: "map snd (zip ?ua ?ub) = ?ub"
    using l by simp_all
  have d: "sqrt (ssqdm ?ua * ssqdm ?ub) \<noteq> 0" by (simp add: sa sb)
  have "sqrt (ssqdm (map fst (zip ?ua ?ub)) * ssqdm (map snd (zip ?ua ?ub))) \<noteq> 0"
    unfolding f s by (rule d)
  then have "\<bar>covxy (zip ?ua ?ub) / sqrt (ssqdm (map fst (zip ?ua ?ub)) * ssqdm (map snd (zip ?ua ?ub)))\<bar> \<le> 1"
    by (rule pearson_unit)
  then have u: "clip_unit (covxy (zip ?ua ?ub) / sqrt (ssqdm ?ua * ssqdm ?ub))
      = covxy (zip ?ua ?ub) / sqrt (ssqdm ?ua * ssqdm ?ub)"
    by (simp add: f s clip_unit_id)
  have "nancorr_entry (map Some ?ua) (map Some ?ub)
      = Some (covxy (zip ?ua ?ub) / sqrt (ssqdm ?ua * ssqdm ?ub))"
    using ne neb l d u by (simp add: nancorr_entry_def Let_def finite_pairs_Some f s)
  then show ?thesis
    by (simp add: pct_change_nonzero [OF za] pct_change_nonzero [OF zb] spec_pearson_covxy [OF l])
qed

lemma aligned_entry:
  assumes al: "aligned price_data"
      and nd: "\<forall>(s, prices) \<in> set price_data. nondegenerate prices"
      and a: "map_of price_data a = Some pa" and b: "map_of price_data b = Some pb"
  shows "frame_at (corr (map (\<lambda>(symbol, prices). (symbol, pct_change_dropna prices)) price_data)) a b
           = Some (Some (spec_pearson (returns_of pa) (returns_of pb)))"
proof -
  from a b have ma: "(a, pa) \<in> set price_data" and mb: "(b, pb) \<in> set price_data"
    by (auto dest: map_of_SomeD)
  from al ma have za: "list_all (\<lambda>p. p \<noteq> 0) pa" "length pa = length (snd (hd price_data))"
    unfolding aligned_def list_all_iff by auto
  from al mb have zb: "list_all (\<lambda>p. p \<noteq> 0) pb" "length pb = length (snd (hd price_data))"
    unfolding aligned_def list_all_iff by auto
  from za zb have z: "list_all (\<lambda>p. p \<noteq> 0) pa" "list_all (\<lambda>p. p \<noteq> 0) pb" "length pa = length pb"
    by simp_all
  from ma mb nd have n: "nondegenerate pa" "nondegenerate pb" by auto
  have "nancorr_entry (pct_change_dropna pa) (pct_change_dropna pb)
      = Some (spec_pearson (returns_of pa) (returns_of pb))"
    using z n by (intro nancorr_entry_aligned)
  with a b show ?thesis by (simp add: frame_at_corr map_of_returns)
qed

lemma frame_at_bounds:
  assumes "frame_at (corr df) a b = Some (Some r)"
  shows "- 1 \<le> r \<and> r \<le> 1"
  using assms by (auto simp: frame_at_corr split: option.splits dest: nancorr_entry_bounds)

lemma corr_labels: "map fst (corr df) = map fst df"
  by (simp add: corr_def comp_def split_def)

lemma nanmean_explicit:
  assumes "Some v \<in> set row"
  shows "List.map_filter id row \<noteq> []
         \<and> nanmean row = Some (sum_list (List.map_filter id row) / real (length (List.map_filter id row)))"
proof -
  have "v \<in> set (List.map_filter id row)"
    using assms by (induction row) (auto split: option.splits)
  then have "List.map_filter id row \<noteq> []" by auto
  then show ?thesis by (simp add: nanmean_def Let_def mean_of_def)
qed

lemma row_has_diagonal:
  assumes nd: "\<forall>(s, prices) \<in> set price_data. nondegenerate prices"
      and s: "s \<in> fst ` set price_data"
  shows "Some 1 \<in> set (frame_row (corr (map (\<lambda>(symbol, prices). (symbol, pct_change_dropna prices)) price_data)) s)"
proof -
  let ?df = "map (\<lambda>(symbol, prices). (symbol, pct_change_dropna prices)) price_data"
  from s obtain prices where m: "map_of price_data s = Some prices"
    by (metis domD dom_map_of_conv_image_fst)
  then have in_pd: "(s, prices) \<in> set price_data" by (rule map_of_SomeD)
  with nd have "nondegenerate prices" by auto
  then have one: "nancorr_entry (pct_change_dropna prices) (pct_change_dropna prices) = Some 1"
    by (intro nancorr_entry_diag nondegenerate_ssqdm)
  have df: "map_of ?df s = Some (pct_change_dropna prices)"
    using m by (simp add: map_of_returns)
  have "(s, pct_change_dropna prices) \<in> set ?df"
    using in_pd by force
  then have "nancorr_entry (pct_change_dropna prices) (pct_change_dropna prices)
      \<in> set (map (\<lambda>(c, xc). nancorr_entry (pct_change_dropna prices) xc) ?df)"
    by force
  with one show ?thesis by (simp add: frame_row_corr [OF df])
qed

lemma updated_conditions_origin:
  assumes "(s, c) \<in> set (market_conditions (update_correlation_matrix now rm price_data))"
  shows "(\<exists>c0. (s, c0) \<in> set (market_conditions rm) \<and> c = c0\<lparr>correlation := correlation c\<rparr>)
         \<and> (s \<notin> fst ` set price_data \<longrightarrow> (s, c) \<in> set (market_conditions rm))"
proof -
  let ?df = "map (\<lambda>(symbol, prices). (symbol, pct_change_dropna prices)) price_data"
  from assms obtain s0 c0 where
    in0: "(s0, c0) \<in> set (market_conditions rm)" and
    eq: "(s, c) = (case map_of (corr ?df) s0 of
                     None \<Rightarrow> (s0, c0)
                   | Some col \<Rightarrow> (s0, c0\<lparr>correlation := nanmean (map snd col)\<rparr>))"
    by (auto simp: update_correlation_matrix_def Let_def)
  have ss: "s = s0" using eq by (auto split: option.splits)
  have 1: "\<exists>c0. (s, c0) \<in> set (market_conditions rm) \<and> c = c0\<lparr>correlation := correlation c\<rparr>"
    using in0 eq ss by (auto split: option.splits)
  have "map_of (corr ?df) s0 = None" if "s \<notin> fst ` set price_data"
  proof -
    from that ss have "map_of price_data s0 = None"
      by (simp add: map_of_eq_None_iff)
    then show ?thesis by (simp add: map_of_corr map_of_returns)
  qed
  then have 2: "s \<notin> fst ` set price_data \<longrightarrow> (s, c) \<in> set (market_conditions rm)"
    using in0 eq by auto
  from 1 2 show ?thesis by blast
qed

lemma updated_conditions_keys:
  "map fst (market_conditions (update_correlation_matrix now rm price_data)) = map fst (market_conditions rm)"
  by (auto simp: update_correlation_matrix_def Let_def split: option.splits)

text \<open>
  C7. Let every price series of the family be non-degenerate. After
  \<open>update_correlation_matrix\<close> the stored matrix has the instruments of the family as
  its columns, it is symmetric, it has 1 at every diagonal entry, and its finite entries
  lie between -1 and 1; for an aligned family the entry of two instruments is the
  correlation coefficient of their return series. The call keeps the symbols of the
  stored market conditions and changes nothing but their correlation: a condition whose
  instrument is not in the family is left as it was, and the correlation of a condition
  whose instrument is in the family is the sum of the finite entries of that
  instrument's row divided by their number, the mean of the row. The matrix depends on
  the prices alone, and a second call on the same prices leaves the matrix and the
  market conditions as the first call left them.
\<close>

theorem update_correlation_matrix_properties:
  assumes "\<forall>(s, prices) \<in> set price_data. nondegenerate prices"
  shows "\<exists>m. correlation_matrix (update_correlation_matrix now rm price_data) = Some m
     \<and> map fst m = map fst price_data
     \<and> (\<forall>a b. frame_at m a b = frame_at m b a)
     \<and> (\<forall>a \<in> fst ` set price_data. frame_at m a a = Some (Some 1))
     \<and> (\<forall>a b r. frame_at m a b = Some (Some r) \<longrightarrow> - 1 \<le> r \<and> r \<le> 1)
     \<and> (aligned price_data \<longrightarrow>
          (\<forall>a b pa pb. map_of price_data a = Some pa \<and> map_of price_data b = Some pb \<longrightarrow>
             frame_at m a b = Some (Some (spec_pearson (returns_of pa) (returns_of pb)))))
     \<and> map fst (market_conditions (update_correlation_matrix now rm price_data))
           = map fst (market_conditions rm)
     \<and> (\<forall>(s, c) \<in> set (market_conditions (update_correlation_matrix now rm price_data)).
           (\<exists>c0. (s, c0) \<in> set (market_conditions rm) \<and> c = c0\<lparr>correlation := correlation c\<rparr>)
           \<and> (s \<notin> fst ` set price_data \<longrightarrow> (s, c) \<in> set (market_conditions rm))
           \<and> (s \<in> fst ` set price_data \<longrightarrow>
                List.map_filter id (frame_row m s) \<noteq> []
                \<and> correlation c
                    = Some (sum_list (List.map_filter id (frame_row m s))
                              / real (length (List.map_filter id (frame_row m s))))))
     \<and> correlation_matrix (update_correlation_matrix now' other price_data) = Some m
     \<and> market_conditions
           (update_correlation_matrix now' (update_correlation_matrix now rm price_data) price_data)
         = market_conditions (update_correlation_matrix now rm price_data)"
proof -
  let ?m = "corr (map (\<lambda>(symbol, prices). (symbol, pct_change_dropna prices)) price_data)"
  let ?rm = "update_correlation_matrix now rm price_data"
  have 1: "correlation_matrix ?rm = Some ?m" by (rule update_matrix)
  have 2: "map fst ?m = map fst price_data"
    by (simp add: corr_labels comp_def split_def)
  have 3: "\<forall>a b. frame_at ?m a b = frame_at ?m b a"
    by (simp add: frame_at_corr_sym)
  have 4: "\<forall>a \<in> fst ` set price_data. frame_at ?m a a = Some (Some 1)"
    using assms by (blast intro: diag_one)
  have 5: "\<forall>a b r. frame_at ?m a b = Some (Some r) \<longrightarrow> - 1 \<le> r \<and> r \<le> 1"
    by (blast dest: frame_at_bounds)
  have 6: "aligned price_data \<longrightarrow>
          (\<forall>a b pa pb. map_of price_data a = Some pa \<and> map_of price_data b = Some pb \<longrightarrow>
             frame_at ?m a b = Some (Some (spec_pearson (returns_of pa) (returns_of pb))))"
    using assms by (blast intro: aligned_entry)
  have 7: "map fst (market_conditions ?rm) = map fst (market_conditions rm)"
    by (rule updated_conditions_keys)
  have 8: "\<forall>(s, c) \<in> set (market_conditions ?rm).
           (\<exists>c0. (s, c0) \<in> set (market_conditions rm) \<and> c = c0\<lparr>correlation := correlation c\<rparr>)
           \<and> (s \<notin> fst ` set price_data \<longrightarrow> (s, c) \<in> set (market_conditions rm))
           \<and> (s \<in> fst ` set price_data \<longrightarrow>
                List.map_filter id (frame_row ?m s) \<noteq> []
                \<and> correlation c
                    = Some (sum_list (List.map_filter id (frame_row ?m s))
                              / real (length (List.map_filter id (frame_row ?m s)))))"
  proof (intro ballI)
    fix x
    assume x: "x \<in> set (market_conditions ?rm)"
    obtain s c where sc: "x = (s, c)" by (cases x)
    from x sc have in_rm: "(s, c) \<in> set (market_conditions ?rm)" by simp
    note o = updated_conditions_origin [OF in_rm]
    have "List.map_filter id (frame_row ?m s) \<noteq> []
          \<and> correlation c
              = Some (sum_list (List.map_filter id (frame_row ?m s))
                        / real (length (List.map_filter id (frame_row ?m s))))"
      if s: "s \<in> fst ` set price_data"
    proof -
      have "correlation c = nanmean (frame_row ?m s)"
        using in_rm s by (rule updated_conditions_row_mean)
      with nanmean_explicit [OF row_has_diagonal [OF assms s]] show ?thesis by simp
    qed
    with o sc show "case x of (s, c) \<Rightarrow>
           (\<exists>c0. (s, c0) \<in> set (market_conditions rm) \<and> c = c0\<lparr>correlation := correlation c\<rparr>)
           \<and> (s \<notin> fst ` set price_data \<longrightarrow> (s, c) \<in> set (market_conditions rm))
           \<and> (s \<in> fst ` set price_data \<longrightarrow>
                List.map_filter id (frame_row ?m s) \<noteq> []
                \<and> correlation c
                    = Some (sum_list (List.map_filter id (frame_row ?m s))
                              / real (length (List.map_filter id (frame_row ?m s)))))"
      by simp
  qed
  have 9: "correlation_matrix (update_correlation_matrix now' other price_data) = Some ?m"
    by (rule update_matrix)
  have 10: "market_conditions (update_correlation_matrix now' ?rm price_data) = market_conditions ?rm"
    by (rule update_twice_conditions)
  show ?thesis
    apply (rule exI [of _ ?m])
    apply (intro conjI)
             apply (fact 1)
            apply (fact 2)
           apply (fact 3)
          apply (fact 4)
         apply (fact 5)
        apply (fact 6)
       apply (fact 7)
      apply (fact 8)
     apply (fact 9)
    apply (fact 10)
    done
qed

lemma returns_a: "pct_change_dropna [1, 2, 2, 3] = [Some 1, Some 0, Some (1/2)]"
  by (simp add: pct_change_dropna_def)

lemma returns_b: "pct_change_dropna [1, 2, 3, 3] = [Some 1, Some (1/2), Some 0]"
  by (simp add: pct_change_dropna_def)

lemma entry_ab: "nancorr_entry [Some 1, Some 0, Some (1/2)] [Some 1, Some (1/2), Some 0] = Some (1/2)"
  by (simp add: nancorr_entry_def finite_pairs_def Let_def ssqdm_def mean_of_def covxy_def
      clip_unit_def real_sqrt_divide)

lemma entry_ba: "nancorr_entry [Some 1, Some (1/2), Some 0] [Some 1, Some 0, Some (1/2)] = Some (1/2)"
  by (simp add: nancorr_entry_def finite_pairs_def Let_def ssqdm_def mean_of_def covxy_def
      clip_unit_def real_sqrt_divide)

lemma entry_aa: "nancorr_entry [Some 1, Some 0, Some (1/2)] [Some 1, Some 0, Some (1/2)] = Some 1"
  by (simp add: nancorr_entry_def finite_pairs_def Let_def ssqdm_def mean_of_def covxy_def
      clip_unit_def real_sqrt_divide)

lemma entry_bb: "nancorr_entry [Some 1, Some (1/2), Some 0] [Some 1, Some (1/2), Some 0] = Some 1"
  by (simp add: nancorr_entry_def finite_pairs_def Let_def ssqdm_def mean_of_def covxy_def
      clip_unit_def real_sqrt_divide)

lemma matrix_pair:
  "corr (map (\<lambda>(symbol, prices). (symbol, pct_change_dropna prices)) prices_pair)
     = [(''A'', [(''A'', Some 1), (''B'', Some (1/2))]),
        (''B'', [(''A'', Some (1/2)), (''B'', Some 1)])]"
  by (simp add: prices_pair_def corr_def returns_a returns_b entry_ab entry_ba entry_aa entry_bb)

lemma nondegenerate_pair: "nondegenerate [1, 2, 2, 3]" "nondegenerate [1, 2, 3, 3]"
  by (simp_all add: nondegenerate_def returns_a returns_b)

lemma aligned_pair: "aligned prices_pair"
  by (simp add: aligned_def prices_pair_def)

lemma conditions_pair:
  "map (\<lambda>(s, c). (s, correlation c, volatility c))
        (market_conditions (update_correlation_matrix 0 rm_three prices_pair))
       = [(''A'', Some (3/4), 0.01), (''B'', Some (3/4), 0.02), (''Z'', Some 0, 0.03)]"
  by (simp add: update_correlation_matrix_def Let_def matrix_pair rm_three_def
      nanmean_def mean_of_def)

lemma pick_stored: "\<exists>m. c = Some m \<and> Q m \<Longrightarrow> c = Some M \<Longrightarrow> Q M"
  by auto

text \<open>
  Two instruments with the prices 1, 2, 2, 3 and 1, 2, 3, 3: the returns are 1, 0, 0.5
  and 1, 0.5, 0, their correlation is 0.5, so both rows are 1 and 0.5 with the mean
  0.75. A third stored instrument without prices keeps its correlation.
\<close>

theorem update_correlation_matrix_properties_witness:
  "nondegenerate [1, 2, 2, 3] \<and> nondegenerate [1, 2, 3, 3] \<and> aligned prices_pair
   \<and> correlation_matrix (update_correlation_matrix 0 rm_three prices_pair)
       = Some [(''A'', [(''A'', Some 1), (''B'', Some (1/2))]),
               (''B'', [(''A'', Some (1/2)), (''B'', Some 1)])]
   \<and> spec_pearson (returns_of [1, 2, 2, 3]) (returns_of [1, 2, 3, 3]) = 1/2
   \<and> map (\<lambda>(s, c). (s, correlation c, volatility c))
        (market_conditions (update_correlation_matrix 0 rm_three prices_pair))
       = [(''A'', Some (3/4), 0.01), (''B'', Some (3/4), 0.02), (''Z'', Some 0, 0.03)]
   \<and> market_conditions
        (update_correlation_matrix 1 (update_correlation_matrix 0 rm_three prices_pair) prices_pair)
       = market_conditions (update_correlation_matrix 0 rm_three prices_pair)"
proof -
  let ?M = "[(''A'', [(''A'', Some 1), (''B'', Some (1/2))]),
             (''B'', [(''A'', Some (1/2)), (''B'', Some (1::real))])]"
  have nd: "\<forall>(s, prices) \<in> set prices_pair. nondegenerate prices"
    using nondegenerate_pair by (simp add: prices_pair_def)
  have ka: "map_of prices_pair ''A'' = Some [1, 2, 2, 3]"
    and kb: "map_of prices_pair ''B'' = Some [1, 2, 3, 3]"
    by (simp_all add: prices_pair_def)
  have cm: "correlation_matrix (update_correlation_matrix 0 rm_three prices_pair) = Some ?M"
    by (simp only: update_matrix matrix_pair)
  note t = update_correlation_matrix_properties [OF nd, where now = 0 and rm = rm_three and now' = 1 and other = rm_three]
  note q = pick_stored [OF t cm]
  note pe = q [THEN conjunct2, THEN conjunct2, THEN conjunct2, THEN conjunct2, THEN conjunct1]
  note idem = q [THEN conjunct2, THEN conjunct2, THEN conjunct2, THEN conjunct2, THEN conjunct2,
                 THEN conjunct2, THEN conjunct2, THEN conjunct2]
  from pe [rule_format, OF aligned_pair conjI [OF ka kb]]
  have "frame_at ?M ''A'' ''B''
      = Some (Some (spec_pearson (returns_of [1, 2, 2, 3]) (returns_of [1, 2, 3, 3])))" .
  then have sp: "spec_pearson (returns_of [1, 2, 2, 3]) (returns_of [1, 2, 3, 3]) = 1/2"
    by (simp add: frame_at_def)
  show ?thesis
    apply (intro conjI)
          apply (fact nondegenerate_pair(1))
         apply (fact nondegenerate_pair(2))
        apply (fact aligned_pair)
       apply (fact cm)
      apply (fact sp)
     apply (fact conditions_pair)
    apply (fact idem)
    done
qed

section \<open>Properties of the strategy optimizer\<close>

lemma fold_max_scale:
  "0 \<le> (f::real) \<Longrightarrow> fold max (map (\<lambda>p. p * f) ps) (x * f) = fold max ps x * f"
proof (induction ps arbitrary: x)
  case Nil
  then show ?case by simp
next
  case (Cons p ps)
  have "max (p * f) (x * f) = max p x * f"
    using Cons.prems by (simp add: max_mult_distrib_right)
  with Cons show ?case by simp
qed

lemma array_max_scale:
  "0 \<le> f \<Longrightarrow> array_max ps = Inr m \<Longrightarrow> array_max (map (\<lambda>p. p * f) ps) = Inr (m * f)"
  by (cases ps) (auto simp: fold_max_scale)

lemma adjust_probability_factor:
  "adjust_probability (Some r) ps = map (\<lambda>p. p * spec_regime_factor r) ps"
  by (simp add: adjust_probability_def spec_regime_factor_def)

lemma fold_max_bounds:
  "list_all (\<lambda>p. 0 \<le> p \<and> p \<le> (1::real)) ps \<Longrightarrow> 0 \<le> x \<Longrightarrow> x \<le> 1 \<Longrightarrow>
   0 \<le> fold max ps x \<and> fold max ps x \<le> 1"
  by (induction ps arbitrary: x) auto

lemma array_max_bounds:
  "probabilities_ok ps \<Longrightarrow> array_max ps = Inr m \<Longrightarrow> 0 \<le> m \<and> m \<le> 1"
  by (cases ps) (auto simp: probabilities_ok_def fold_max_bounds)

lemma predict_with_regime:
  assumes "symbol @ ''_'' @ timeframe \<in> trained"
      and "array_max probability = Inr raw"
      and "market_regimes symbol = Some regime"
      and "0 \<le> spec_regime_factor regime"
  shows "predict trained market_regimes symbol timeframe (Inr (prediction, probability))
           = (prediction, raw * spec_regime_factor regime)"
  using assms array_max_scale [of "spec_regime_factor regime" probability raw]
  by (simp add: predict_def predict_body_def adjust_probability_factor)

lemma predict_without_regime:
  assumes "symbol @ ''_'' @ timeframe \<in> trained"
      and "array_max probability = Inr raw"
      and "market_regimes symbol = None"
  shows "predict trained market_regimes symbol timeframe (Inr (prediction, probability))
           = (prediction, raw)"
  using assms by (simp add: predict_def predict_body_def adjust_probability_def)

lemma predict_failure:
  "predict_body trained market_regimes symbol timeframe model_out = Inl e \<Longrightarrow>
   predict trained market_regimes symbol timeframe model_out = (0, 0)"
  by (simp add: predict_def)

lemma predict_body_cases:
  "(\<exists>e. predict_body trained market_regimes symbol timeframe model_out = Inl e)
   \<or> (\<exists>prediction probability raw. model_out = Inr (prediction, probability)
        \<and> symbol @ ''_'' @ timeframe \<in> trained \<and> array_max probability = Inr raw)"
proof (cases model_out)
  case (Inl e)
  then show ?thesis by (simp add: predict_body_def Let_def)
next
  case (Inr r)
  obtain prediction probability where r: "r = (prediction, probability)" by (cases r)
  show ?thesis
  proof (cases probability)
    case Nil
    with Inr r show ?thesis
      by (simp add: predict_body_def Let_def adjust_probability_def split: option.splits)
  next
    case (Cons x xs)
    with Inr r show ?thesis by (simp add: predict_body_def Let_def)
  qed
qed

lemma regime_factor_in_range:
  "0 \<le> strength r \<Longrightarrow> 0 \<le> confidence r \<Longrightarrow> confidence r \<le> 1 \<Longrightarrow> 0 \<le> spec_regime_factor r"
  by (simp add: spec_regime_factor_def)

text \<open>
  C5. When a model is trained for the key, the model gives its class probabilities and a
  regime is recorded for the instrument, \<open>predict\<close> returns the largest class
  probability multiplied by \<open>1 + strength * confidence\<close> for a trending regime, by
  \<open>1 - confidence * 0.5\<close> for a ranging one and by \<open>1 - confidence * 0.7\<close> for a volatile
  one. The factor is taken non-negative, as it is for every regime whose strength and
  confidence lie in the declared range from 0 to 1 (\<open>regime_factor_in_range\<close>).
\<close>

theorem predict_regime_adjusted:
  assumes "symbol @ ''_'' @ timeframe \<in> trained"
      and "model_out = Inr (prediction, probability)"
      and "array_max probability = Inr raw"
      and "market_regimes symbol = Some regime"
      and "0 \<le> spec_regime_factor regime"
  shows "predict trained market_regimes symbol timeframe model_out
           = (prediction, raw * spec_regime_factor regime)
         \<and> (regime_type regime = ''trending'' \<longrightarrow>
              spec_regime_factor regime = 1 + strength regime * confidence regime)
         \<and> (regime_type regime = ''ranging'' \<longrightarrow>
              spec_regime_factor regime = 1 - confidence regime * 0.5)
         \<and> (regime_type regime = ''volatile'' \<longrightarrow>
              spec_regime_factor regime = 1 - confidence regime * 0.7)"
  using assms predict_with_regime [of symbol timeframe trained probability raw market_regimes regime prediction]
  by (simp add: spec_regime_factor_def)

text \<open>The scenario of the specification: a trending regime of strength 0.5 and
  confidence 0.8 turns the raw probability 0.6 into 0.84.\<close>

theorem predict_regime_adjusted_witness:
  "predict {''BTC/USDT_1h''} [''BTC/USDT'' \<mapsto> regime_trending_08] ''BTC/USDT'' ''1h''
     (Inr (1, [0.4, 0.6])) = (1, 0.84)"
  using predict_regime_adjusted
          [where symbol = "''BTC/USDT''" and timeframe = "''1h''"
             and trained = "{''BTC/USDT_1h''}" and model_out = "Inr (1, [0.4, 0.6])"
             and prediction = 1 and probability = "[0.4, 0.6]" and raw = "0.6"
             and market_regimes = "[''BTC/USDT'' \<mapsto> regime_trending_08]"
             and regime = regime_trending_08]
  by (simp add: regime_trending_08_def spec_regime_factor_def)

text \<open>
  C4 as the specification states it: every probability and confidence the core produces
  lies between 0 and 1. Under the trending regime of strength 0.5 and confidence 0.8 the
  class probabilities 0.1 and 0.9 give the returned probability 1.26; and with ADX 10
  and a band position of -0.2 (the close below the lower band) the detected ranging
  regime has confidence 1.2.
\<close>

theorem confidence_range_counterexample:
  "snd (predict {''BTC/USDT_1h''} [''BTC/USDT'' \<mapsto> regime_trending_08] ''BTC/USDT'' ''1h''
          (Inr (1, [0.1, 0.9]))) = 1.26
   \<and> probabilities_ok [0.1, 0.9]
   \<and> confidence (fst (detect_market_regime Map.empty (Inr ind_below_band) ''BTC/USDT'')) = 1.2
   \<and> regime_type (fst (detect_market_regime Map.empty (Inr ind_below_band) ''BTC/USDT'')) = ''ranging''"
  by (simp add: predict_def predict_body_def adjust_probability_def regime_trending_08_def
      detect_market_regime_def regime_body_def ind_below_band_def probabilities_ok_def)

lemma detect_confidence_not_ranging:
  assumes "regime_type (fst (detect_market_regime market_regimes ind symbol)) \<noteq> ''ranging''"
  shows "0 \<le> confidence (fst (detect_market_regime market_regimes ind symbol))
         \<and> confidence (fst (detect_market_regime market_regimes ind symbol)) \<le> 1"
proof (cases ind)
  case (Inl e)
  then show ?thesis
    by (simp add: detect_market_regime_def regime_body_def unknown_regime_def)
next
  case (Inr i)
  show ?thesis
  proof (cases "current_adx i > 25")
    case True
    with Inr show ?thesis
      by (simp add: detect_market_regime_def regime_body_def Let_def)
  next
    case na: False
    show ?thesis
    proof (cases "current_bb_width i < 0.1")
      case True
      with na Inr assms show ?thesis
        by (simp add: detect_market_regime_def regime_body_def Let_def)
    next
      case False
      with na Inr show ?thesis
        by (simp add: detect_market_regime_def regime_body_def Let_def unknown_regime_def)
    qed
  qed
qed

lemma detect_confidence_ranging:
  assumes "0 \<le> current_bb_width i"
  shows "0 \<le> confidence (fst (detect_market_regime market_regimes (Inr i) symbol))
         \<and> confidence (fst (detect_market_regime market_regimes (Inr i) symbol)) \<le> 1"
proof (cases "current_adx i > 25")
  case True
  then show ?thesis
    by (simp add: detect_market_regime_def regime_body_def Let_def)
next
  case na: False
  show ?thesis
  proof (cases "current_bb_width i < 0.1")
    case True
    with na assms show ?thesis
      by (simp add: detect_market_regime_def regime_body_def Let_def)
  next
    case False
    with na show ?thesis
      by (simp add: detect_market_regime_def regime_body_def Let_def unknown_regime_def)
  qed
qed

lemma predict_damped_range:
  assumes ok: "case model_out of Inl e \<Rightarrow> True | Inr (prediction, probability) \<Rightarrow> probabilities_ok probability"
      and reg: "case market_regimes symbol of
                  None \<Rightarrow> True
                | Some r \<Rightarrow> regime_type r \<noteq> ''trending'' \<and> 0 \<le> confidence r \<and> confidence r \<le> 1"
  shows "0 \<le> snd (predict trained market_regimes symbol timeframe model_out)
         \<and> snd (predict trained market_regimes symbol timeframe model_out) \<le> 1"
proof -
  from predict_body_cases [of trained market_regimes symbol timeframe model_out]
  show ?thesis
  proof
    assume "\<exists>e. predict_body trained market_regimes symbol timeframe model_out = Inl e"
    then show ?thesis by (auto simp: predict_failure)
  next
    assume "\<exists>prediction probability raw. model_out = Inr (prediction, probability)
        \<and> symbol @ ''_'' @ timeframe \<in> trained \<and> array_max probability = Inr raw"
    then obtain prediction probability raw where
      mo: "model_out = Inr (prediction, probability)" and
      tr: "symbol @ ''_'' @ timeframe \<in> trained" and
      am: "array_max probability = Inr raw" by blast
    from ok mo have "probabilities_ok probability" by simp
    then have raw: "0 \<le> raw \<and> raw \<le> 1" using am by (rule array_max_bounds)
    show ?thesis
    proof (cases "market_regimes symbol")
      case None
      with mo tr am raw show ?thesis by (simp add: predict_without_regime)
    next
      case (Some r)
      with reg have r: "regime_type r \<noteq> ''trending''" "0 \<le> confidence r" "confidence r \<le> 1"
        by simp_all
      then have f: "0 \<le> spec_regime_factor r \<and> spec_regime_factor r \<le> 1"
        by (simp add: spec_regime_factor_def)
      then have "0 \<le> raw * spec_regime_factor r \<and> raw * spec_regime_factor r \<le> 1"
        using raw by (simp add: mult_le_one)
      with Some mo tr am f show ?thesis by (simp add: predict_with_regime)
    qed
  qed
qed

lemma predict_trending_range:
  assumes ok: "case model_out of Inl e \<Rightarrow> True | Inr (prediction, probability) \<Rightarrow> probabilities_ok probability"
      and reg: "market_regimes symbol = Some r" "regime_type r = ''trending''"
               "0 \<le> strength r" "0 \<le> confidence r"
  shows "0 \<le> snd (predict trained market_regimes symbol timeframe model_out)
         \<and> snd (predict trained market_regimes symbol timeframe model_out)
             \<le> 1 + strength r * confidence r"
proof -
  have f: "spec_regime_factor r = 1 + strength r * confidence r"
    using reg(2) by (simp add: spec_regime_factor_def)
  have f0: "0 \<le> spec_regime_factor r"
    using reg(3,4) f by simp
  from predict_body_cases [of trained market_regimes symbol timeframe model_out]
  show ?thesis
  proof
    assume "\<exists>e. predict_body trained market_regimes symbol timeframe model_out = Inl e"
    then show ?thesis using reg(3,4) by (auto simp: predict_failure)
  next
    assume "\<exists>prediction probability raw. model_out = Inr (prediction, probability)
        \<and> symbol @ ''_'' @ timeframe \<in> trained \<and> array_max probability = Inr raw"
    then obtain prediction probability raw where
      mo: "model_out = Inr (prediction, probability)" and
      tr: "symbol @ ''_'' @ timeframe \<in> trained" and
      am: "array_max probability = Inr raw" by blast
    from ok mo have "probabilities_ok probability" by simp
    then have raw: "0 \<le> raw \<and> raw \<le> 1" using am by (rule array_max_bounds)
    have "raw * spec_regime_factor r \<le> 1 * spec_regime_factor r"
      using raw f0 by (intro mult_right_mono) simp_all
    moreover have "0 \<le> raw * spec_regime_factor r"
      using raw f0 by simp
    ultimately show ?thesis
      using mo tr am reg(1) f0 f by (simp add: predict_with_regime)
  qed
qed

text \<open>
  C4, amended. The regime returned by \<open>detect_market_regime\<close> has its confidence between
  0 and 1 whenever it is not a ranging regime, and also whenever the band position read
  from the indicators is not negative. Given class probabilities between 0 and 1, the
  probability returned by \<open>predict\<close> lies between 0 and 1 when no regime is recorded or
  the recorded regime is not trending and has its confidence between 0 and 1; under a
  trending regime with non-negative strength and confidence it lies between 0 and
  \<open>1 + strength * confidence\<close>.
\<close>

theorem confidence_range_amended:
  "(regime_type (fst (detect_market_regime regimes_a ind symbol_a)) \<noteq> ''ranging'' \<longrightarrow>
      0 \<le> confidence (fst (detect_market_regime regimes_a ind symbol_a))
      \<and> confidence (fst (detect_market_regime regimes_a ind symbol_a)) \<le> 1)
   \<and> (0 \<le> current_bb_width i \<longrightarrow>
      0 \<le> confidence (fst (detect_market_regime regimes_a (Inr i) symbol_a))
      \<and> confidence (fst (detect_market_regime regimes_a (Inr i) symbol_a)) \<le> 1)
   \<and> ((case model_out of Inl e \<Rightarrow> True | Inr (prediction, probability) \<Rightarrow> probabilities_ok probability)
      \<and> (case regimes_b symbol of
            None \<Rightarrow> True
          | Some r \<Rightarrow> regime_type r \<noteq> ''trending'' \<and> 0 \<le> confidence r \<and> confidence r \<le> 1) \<longrightarrow>
      0 \<le> snd (predict trained regimes_b symbol timeframe model_out)
      \<and> snd (predict trained regimes_b symbol timeframe model_out) \<le> 1)
   \<and> ((case model_out of Inl e \<Rightarrow> True | Inr (prediction, probability) \<Rightarrow> probabilities_ok probability)
      \<and> regimes_c symbol = Some r_c \<and> regime_type r_c = ''trending''
      \<and> 0 \<le> strength r_c \<and> 0 \<le> confidence r_c \<longrightarrow>
      0 \<le> snd (predict trained regimes_c symbol timeframe model_out)
      \<and> snd (predict trained regimes_c symbol timeframe model_out) \<le> 1 + strength r_c * confidence r_c)"
  using detect_confidence_not_ranging [of regimes_a ind symbol_a]
        detect_confidence_ranging [of i regimes_a symbol_a]
        predict_damped_range [of model_out regimes_b symbol trained timeframe]
        predict_trending_range [of model_out regimes_c symbol r_c trained timeframe]
  by blast

theorem confidence_range_amended_witness:
  "regime_type (fst (detect_market_regime Map.empty (Inr ind_strong_trend) ''BTC/USDT'')) \<noteq> ''ranging''
   \<and> confidence (fst (detect_market_regime Map.empty (Inr ind_strong_trend) ''BTC/USDT'')) = 0.8
   \<and> 0 \<le> current_bb_width ind_strong_trend
   \<and> probabilities_ok [0.4, 0.6]
   \<and> snd (predict {''BTC/USDT_1h''} [''BTC/USDT'' \<mapsto> regime_ranging_09] ''BTC/USDT'' ''1h''
            (Inr (1, [0.4, 0.6]))) = 0.33
   \<and> snd (predict {''BTC/USDT_1h''} [''BTC/USDT'' \<mapsto> regime_trending_08] ''BTC/USDT'' ''1h''
            (Inr (1, [0.4, 0.6]))) = 0.84"
  using confidence_range_amended
          [where regimes_a = Map.empty and ind = "Inr ind_strong_trend" and i = ind_strong_trend
             and symbol_a = "''BTC/USDT''" and symbol = "''BTC/USDT''" and timeframe = "''1h''"
             and trained = "{''BTC/USDT_1h''}" and model_out = "Inr (1, [0.4, 0.6])"
             and regimes_b = "[''BTC/USDT'' \<mapsto> regime_ranging_09]"
             and regimes_c = "[''BTC/USDT'' \<mapsto> regime_trending_08]"
             and r_c = regime_trending_08]
  by (simp add: detect_market_regime_def regime_body_def ind_strong_trend_def
      probabilities_ok_def predict_def predict_body_def adjust_probability_def
      regime_ranging_09_def regime_trending_08_def)

section \<open>Properties of the trading engine\<close>

subsection \<open>Signal combination\<close>

lemma combine_signals_above_threshold:
  "\<bar>dl_return\<bar> > th \<Longrightarrow> combine_signals th t a c dl_return = 0"
  by (simp add: combine_signals_def combine_body_def Let_def)

lemma combine_signals_below_threshold:
  "\<not> \<bar>dl_return\<bar> > th \<Longrightarrow> 0.4 + 0.6 * c \<noteq> 0 \<Longrightarrow>
   combine_signals th t a c dl_return = spec_combine th t a c dl_return"
  by (simp add: combine_signals_def combine_body_def spec_combine_def Let_def)

text \<open>
  C6. The specification asks for the weighted average, amplified by
  \<open>1 + sign(return) * min(|return|, 0.1)\<close> when the predicted return exceeds the
  threshold. With threshold 0.02, traditional signal 1, action buy, confidence 1 and
  predicted return 0.05 that value is 1.05; the code returns 0, because the
  amplification raises \<open>NameError\<close> and the handler answers 0. Below the threshold code
  and specification agree (\<open>combine_signals_below_threshold\<close>); above it the code
  always returns 0 (\<open>combine_signals_above_threshold\<close>).
\<close>

theorem combine_signals_amplification_lost:
  "combine_signals 0.02 1 1 1 0.05 = 0
   \<and> spec_combine 0.02 1 1 1 0.05 = 1.05
   \<and> combine_body 0.02 1 1 1 0.05 = Inl np_name_error"
  by (simp add: combine_signals_def combine_body_def spec_combine_def)

subsection \<open>The bound on open positions\<close>

lemma length_update_le: "length (AList.update k v al) \<le> Suc (length al)"
  by (induction al) auto

lemma trade_loop_bound:
  "int (length positions) \<le> max_open_positions cfg \<Longrightarrow>
   int (length (trade_loop cfg env rm portfolio_total syms positions)) \<le> max_open_positions cfg"
proof (induction syms arbitrary: positions)
  case Nil
  then show ?case by simp
next
  case (Cons symbol rest)
  have upd: "\<And>order. \<not> int (length positions) \<ge> max_open_positions cfg \<Longrightarrow>
      int (length (AList.update symbol order positions)) \<le> max_open_positions cfg"
  proof -
    fix order
    assume "\<not> int (length positions) \<ge> max_open_positions cfg"
    moreover have "length (AList.update symbol order positions) \<le> Suc (length positions)"
      by (rule length_update_le)
    ultimately show "int (length (AList.update symbol order positions)) \<le> max_open_positions cfg"
      by linarith
  qed
  show ?case
    using Cons.prems Cons.IH [of positions] upd Cons.IH
    by (auto simp: Let_def split: sum.splits option.splits prod.splits)
qed

lemma trade_loop_full:
  "int (length positions) \<ge> max_open_positions cfg \<Longrightarrow>
   trade_loop cfg env rm portfolio_total syms positions = positions"
  by (cases syms) auto

text \<open>
  C3. If the number of open positions is at most \<open>max_open_positions\<close> before the
  execution step, it is at most \<open>max_open_positions\<close> after it, whatever the
  collaborators answer; and a step that starts at or above the maximum adds nothing.
\<close>

theorem check_and_execute_trades_bound:
  "(int (length positions) \<le> max_open_positions cfg \<longrightarrow>
      int (length (check_and_execute_trades cfg env rm positions)) \<le> max_open_positions cfg)
   \<and> (int (length positions) \<ge> max_open_positions cfg \<longrightarrow>
      check_and_execute_trades cfg env rm positions = positions)"
  by (auto simp: check_and_execute_trades_def trade_loop_bound trade_loop_full split: sum.splits)

text \<open>With a maximum of one position and three symbols that all signal a buy, the step
  opens the first position and stops; a second step changes nothing.\<close>

theorem check_and_execute_trades_bound_witness:
  "int (length ([] :: (string \<times> position) list)) \<le> max_open_positions cfg_one
   \<and> check_and_execute_trades cfg_one env_ok rm_calm [] = [(''BTC/USDT'', filled_order)]
   \<and> int (length [(''BTC/USDT'', filled_order)]) \<ge> max_open_positions cfg_one
   \<and> check_and_execute_trades cfg_one env_ok rm_calm [(''BTC/USDT'', filled_order)]
       = [(''BTC/USDT'', filled_order)]"
  using check_and_execute_trades_bound
          [where positions = "[]" and cfg = cfg_one and env = env_ok and rm = rm_calm]
        check_and_execute_trades_bound
          [where positions = "[(''BTC/USDT'', filled_order)]" and cfg = cfg_one
             and env = env_ok and rm = rm_calm]
  by (simp add: check_and_execute_trades_def cfg_one_def env_ok_def rm_calm_def
      combine_signals_def combine_body_def filled_order_def
      calculate_dynamic_stop_loss_def stop_loss_body_def)

subsection \<open>The trailing stop\<close>

lemma stop_moved_up_refl: "stop_moved_up p p"
  by (simp add: stop_moved_up_def)

lemma stop_moved_up_trans: "stop_moved_up p q \<Longrightarrow> stop_moved_up q r \<Longrightarrow> stop_moved_up p r"
  by (auto simp: stop_moved_up_def get_or_def split: option.splits)

lemma stop_moved_up_set:
  "stop_moved_up p p' \<Longrightarrow> stop_loss p = Some v \<Longrightarrow> \<exists>v'. stop_loss p' = Some v' \<and> v \<le> v'"
  by (auto simp: stop_moved_up_def get_or_def split: option.splits)

lemma close_loop_sub:
  "map_of (close_loop env todo positions) s = Some p' \<Longrightarrow> map_of positions s = Some p'"
proof (induction todo arbitrary: positions)
  case Nil
  then show ?case by simp
next
  case (Cons a todo)
  obtain sym pos where a: "a = (sym, pos)" by (cases a)
  show ?case
  proof (cases "amount pos")
    case None
    with Cons.prems a show ?thesis by simp
  next
    case (Some am)
    show ?thesis
    proof (cases "execute_order env sym ''SELL'' am ''MARKET'' None")
      case (Inl e)
      with Cons.prems a Some show ?thesis by simp
    next
      case (Inr r)
      with Cons.prems a Some
      have "map_of (close_loop env todo (AList.delete sym positions)) s = Some p'"
        by simp
      then have "map_of (AList.delete sym positions) s = Some p'" by (rule Cons.IH)
      then show ?thesis by (simp add: AList.delete_conv split: if_splits)
    qed
  qed
qed

lemma map_of_map_entry_stop:
  "map_of (AList.map_entry k f al) s = (if s = k then map_option f (map_of al k) else map_of al s)"
  by (induction al) auto

lemma monitor_loop_mono:
  assumes "distinct (map fst todo)"
      and "\<forall>(s, p) \<in> set todo. map_of positions s = Some p"
      and "map_of (monitor_loop fmt env rm todo positions) s = Some p'"
  shows "\<exists>p. map_of positions s = Some p \<and> stop_moved_up p p'"
  using assms
proof (induction todo arbitrary: positions)
  case Nil
  then show ?case by (auto simp: stop_moved_up_refl)
next
  case (Cons a todo)
  obtain sym pos where a: "a = (sym, pos)" by (cases a)
  have same: "\<And>q. map_of positions s = Some q \<Longrightarrow>
      \<exists>p. map_of positions s = Some p \<and> stop_moved_up p q"
    by (auto simp: stop_moved_up_refl)
  have dist: "distinct (map fst todo)" and notin: "sym \<notin> fst ` set todo"
    using Cons.prems(1) a by auto
  have here: "map_of positions sym = Some pos"
    using Cons.prems(2) a by auto
  have rest_ok: "\<forall>(s, p) \<in> set todo. map_of positions s = Some p"
    using Cons.prems(2) by auto
  show ?case
  proof (cases "last_close env sym")
    case (Inl e)
    with Cons.prems(3) a same show ?thesis by simp
  next
    case cl: (Inr current_price)
    show ?thesis
    proof (cases "price pos")
      case None
      with Cons.prems(3) a cl same show ?thesis by simp
    next
      case pr: (Some entry_price)
      show ?thesis
      proof (cases "await_emergency env (check_emergency_shutdown fmt rm (as_portfolio positions))")
        case (Inl e)
        with Cons.prems(3) a cl pr same show ?thesis by simp
      next
        case em: (Inr er)
        obtain emergency_exit reason where er: "er = (emergency_exit, reason)" by (cases er)
        show ?thesis
        proof (cases emergency_exit)
          case True
          with Cons.prems(3) a cl pr em er
          have "map_of (close_all_positions env positions) s = Some p'" by simp
          then have "map_of positions s = Some p'"
            unfolding close_all_positions_def by (rule close_loop_sub)
          then show ?thesis by (rule same)
        next
          case ne: False
          show ?thesis
          proof (cases "calculate_trailing_stop env entry_price current_price")
            case (Inl e)
            with Cons.prems(3) a cl pr em er ne same show ?thesis by simp
          next
            case ts: (Inr new_stop)
            show ?thesis
            proof (cases "new_stop > get_or (stop_loss pos) 0")
              case False
              with Cons.prems(3) a cl pr em er ne ts
              have "map_of (monitor_loop fmt env rm todo positions) s = Some p'" by simp
              with Cons.IH [OF dist rest_ok] show ?thesis .
            next
              case gt: True
              show ?thesis
              proof (cases "stop_loss_order_id pos")
                case None
                with Cons.prems(3) a cl pr em er ne ts gt same show ?thesis by simp
              next
                case oid: (Some order_id)
                show ?thesis
                proof (cases "update_order env sym order_id new_stop")
                  case (Inl e)
                  with Cons.prems(3) a cl pr em er ne ts gt oid same show ?thesis by simp
                next
                  case (Inr r)
                  let ?ps = "AList.map_entry sym (\<lambda>p. p\<lparr>stop_loss := Some new_stop\<rparr>) positions"
                  from Inr Cons.prems(3) a cl pr em er ne ts gt oid
                  have res: "map_of (monitor_loop fmt env rm todo ?ps) s = Some p'" by simp
                  have "\<forall>(s, p) \<in> set todo. map_of ?ps s = Some p"
                    using rest_ok notin by (force simp: map_of_map_entry_stop)
                  from Cons.IH [OF dist this res]
                  obtain q where q: "map_of ?ps s = Some q" "stop_moved_up q p'" by blast
                  show ?thesis
                  proof (cases "s = sym")
                    case True
                    with q here have "q = pos\<lparr>stop_loss := Some new_stop\<rparr>"
                      by (simp add: map_of_map_entry_stop)
                    then have "stop_moved_up pos q"
                      using gt by (simp add: stop_moved_up_def)
                    then have "stop_moved_up pos p'"
                      using q(2) by (rule stop_moved_up_trans)
                    with here True show ?thesis by simp
                  next
                    case False
                    with q show ?thesis by (simp add: map_of_map_entry_stop)
                  qed
                qed
              qed
            qed
          qed
        qed
      qed
    qed
  qed
qed

lemma map_of_self:
  "distinct (map fst al) \<Longrightarrow> \<forall>(s, p) \<in> set al. map_of al s = Some p"
  by auto

lemma monitor_positions_as_written:
  "await_emergency env = await_tuple \<Longrightarrow> monitor_positions fmt env rm positions = positions"
  by (cases positions) (auto simp: monitor_positions_def await_tuple_def split: sum.splits option.splits)

text \<open>
  C9. Let the positions be a dict (distinct symbols). Every position that is still open
  after a monitoring pass was open before it, and its stored stop is either what it was
  or a strictly greater value; so a stop that was set is still set and has not
  decreased. This holds for every behaviour of the collaborators, whether the awaited
  emergency check raises (as in the code as written, where the pass changes nothing,
  \<open>monitor_positions_as_written\<close>) or yields its pair.
\<close>

theorem monitor_positions_stop_monotone:
  assumes "distinct (map fst positions)"
      and "map_of (monitor_positions fmt env rm positions) symbol = Some p'"
  shows "\<exists>p. map_of positions symbol = Some p \<and> stop_moved_up p p'
           \<and> (\<forall>v. stop_loss p = Some v \<longrightarrow> (\<exists>v'. stop_loss p' = Some v' \<and> v \<le> v'))"
proof -
  from monitor_loop_mono [OF assms(1) map_of_self [OF assms(1)]] assms(2)
  obtain p where p: "map_of positions symbol = Some p" "stop_moved_up p p'"
    unfolding monitor_positions_def by blast
  then show ?thesis by (blast dest: stop_moved_up_set)
qed

text \<open>A position bought at 100 with its stop at 98; the last close is 110 and the
  trailing stop asked for is 104.5: the pass moves the stop up to 104.5.\<close>

theorem monitor_positions_stop_monotone_witness:
  "distinct (map fst [(''BTC/USDT'', filled_order)])
   \<and> monitor_positions (\<lambda>x. ''pct'') env_ok rm_calm [(''BTC/USDT'', filled_order)]
       = [(''BTC/USDT'', filled_order\<lparr>stop_loss := Some 104.5\<rparr>)]
   \<and> stop_moved_up filled_order (filled_order\<lparr>stop_loss := Some 104.5\<rparr>)"
proof -
  have d: "distinct (map fst [(''BTC/USDT'', filled_order)])" by simp
  have run: "monitor_positions (\<lambda>x. ''pct'') env_ok rm_calm [(''BTC/USDT'', filled_order)]
       = [(''BTC/USDT'', filled_order\<lparr>stop_loss := Some 104.5\<rparr>)]"
    by (simp add: monitor_positions_def env_ok_def rm_calm_def filled_order_def
        check_emergency_shutdown_def shutdown_body_def as_portfolio_def pos_dict.truncate_def
        lookup_trigger_def default_triggers_def get_or_def sum_daily_pl_def
        drawdown_of_def daily_pl_pct_of_def)
  then have m: "map_of (monitor_positions (\<lambda>x. ''pct'') env_ok rm_calm [(''BTC/USDT'', filled_order)])
       ''BTC/USDT'' = Some (filled_order\<lparr>stop_loss := Some 104.5\<rparr>)"
    by simp
  from monitor_positions_stop_monotone [OF d m]
  have "stop_moved_up filled_order (filled_order\<lparr>stop_loss := Some 104.5\<rparr>)" by simp
  with d run show ?thesis by simp
qed

end
